theory Spec2Isabelle
  imports Complex_Main "HOL-Library.AList" "HOL-Library.Word"
begin

section \<open>JavaScript values as the handlers see them\<close>

text \<open>
  The route handlers work on values produced by \<^verbatim>\<open>JSON.parse\<close> (model completions and
  request bodies). A parsed value is a \<open>json\<close>; an object is the list of its own
  properties in the engine's property order, with pairwise distinct keys. A property
  that is absent reads as \<^verbatim>\<open>undefined\<close>, modelled as \<open>None\<close>.

  Strings are lists of characters; the texts that decide anything here (property
  names, credentials, hexadecimal and base64 text) are ASCII. A number is kept as its decimal text, the one
  \<^verbatim>\<open>String(n)\<close> gives (\<^verbatim>\<open>7\<close>, \<^verbatim>\<open>0.5\<close>, \<^verbatim>\<open>1e+21\<close>, \<^verbatim>\<open>Infinity\<close> for a literal that overflows):
  the handlers never calculate with a parsed number, they test it for truthiness and
  serialize it, and both are read off the text. Both zeros have the text \<^verbatim>\<open>0\<close>.
  Exceptions are values of \<open>js_error\<close>; a function that may throw returns
  \<open>js_error + 'a\<close>.
\<close>

datatype json =
    JNull
  | JBool bool
  | JNum string
  | JStr string
  | JArr "json list"
  | JObj "(string \<times> json) list"

datatype js_error = Error string | TypeError | SyntaxError

text \<open>ToBoolean, as applied by \<^verbatim>\<open>!v\<close>, \<^verbatim>\<open>a || b\<close> and \<^verbatim>\<open>a && b\<close>.\<close>

fun truthy :: "json \<Rightarrow> bool" where
  "truthy JNull = False"
| "truthy (JBool b) = b"
| "truthy (JNum n) = (n \<noteq> ''0'')"
| "truthy (JStr s) = (s \<noteq> [])"
| "truthy (JArr xs) = True"
| "truthy (JObj fs) = True"

fun truthy_opt :: "json option \<Rightarrow> bool" where
  "truthy_opt None = False"
| "truthy_opt (Some v) = truthy v"

text \<open>\<^verbatim>\<open>a || b\<close> on possibly-undefined operands; \<open>b\<close> is only evaluated when \<open>a\<close> is falsy.\<close>

definition js_or :: "json option \<Rightarrow> json option \<Rightarrow> json option" where
  "js_or a b = (if truthy_opt a then a else b)"

text \<open>
  The property read \<^verbatim>\<open>v.k\<close>, as a lookup among the own properties of \<open>v\<close>. That is what
  the read gives for every name that no prototype defines, and the names the handlers
  read (\<^verbatim>\<open>slides\<close>, \<^verbatim>\<open>id\<close>, \<^verbatim>\<open>type\<close>, \<^verbatim>\<open>css\<close>, \<^verbatim>\<open>choices\<close>, ...) are such names: an object has
  the property or not, and a string, number, boolean or array has none of them. Reading
  a property of \<^verbatim>\<open>null\<close> throws a TypeError. \<open>js_prop\<close> is the read where it cannot throw
  or where throwing has been excluded before: it gives \<open>None\<close> (undefined) for \<^verbatim>\<open>null\<close>.
\<close>

fun get_prop :: "json \<Rightarrow> string \<Rightarrow> js_error + json option" where
  "get_prop JNull k = Inl TypeError"
| "get_prop (JObj fs) k = Inr (map_of fs k)"
| "get_prop v k = Inr None"

definition js_prop :: "json \<Rightarrow> string \<Rightarrow> json option" where
  "js_prop v k = (case get_prop v k of Inl e \<Rightarrow> None | Inr x \<Rightarrow> x)"

fun isArray :: "json option \<Rightarrow> bool" where
  "isArray (Some (JArr xs)) = True"
| "isArray v = False"

text \<open>\<^verbatim>\<open>typeof v === 'object'\<close>: true of objects, arrays and \<^verbatim>\<open>null\<close>.\<close>

fun typeof_object :: "json option \<Rightarrow> bool" where
  "typeof_object (Some JNull) = True"
| "typeof_object (Some (JArr xs)) = True"
| "typeof_object (Some (JObj fs)) = True"
| "typeof_object v = False"

fun typeof_string :: "json option \<Rightarrow> bool" where
  "typeof_string (Some (JStr s)) = True"
| "typeof_string v = False"

text \<open>Decimal numerals, the keys under which the elements of an array are spread.\<close>

definition digit_char :: "nat \<Rightarrow> char" where
  "digit_char d = ''0123456789'' ! d"

function dec_string :: "nat \<Rightarrow> string" where
  "dec_string n =
     (if n < 10 then [digit_char n] else dec_string (n div 10) @ [digit_char (n mod 10)])"
  by pat_completeness auto
termination
  by (relation "measure (\<lambda>n. n)") auto

declare dec_string.simps [simp del]

text \<open>
  Object spread \<^verbatim>\<open>{...v}\<close>: the own enumerable properties of \<open>v\<close>. An array and a string
  spread their elements under their indices, a number or a boolean has none, and
  spreading \<^verbatim>\<open>null\<close> is allowed and gives none.
\<close>

fun spread :: "json \<Rightarrow> (string \<times> json) list" where
  "spread (JObj fs) = fs"
| "spread (JArr xs) = zip (map dec_string [0..<length xs]) xs"
| "spread (JStr s) = zip (map dec_string [0..<length s]) (map (\<lambda>c. JStr [c]) s)"
| "spread v = []"

text \<open>
  A property written in an object literal after a spread: it replaces the value of a
  key the spread already gave (the key keeps its place) and is appended otherwise.
\<close>

definition set_prop :: "string \<Rightarrow> json \<Rightarrow> (string \<times> json) list \<Rightarrow> (string \<times> json) list" where
  "set_prop k v fs = AList.update k v fs"

section \<open>Text to deck: the normalizer of \<^verbatim>\<open>callGroqAPI\<close>\<close>

text \<open>
  \<^verbatim>\<open>randomUUID()\<close> is a supply of tokens \<open>gen 0, gen 1, ...\<close>; the state is the index of
  the next token. A slide draws a token only when its \<^verbatim>\<open>id\<close> is falsy.
\<close>

record deck =
  presentationTitle :: json
  totalSlides :: nat
  slides :: "json list"

text \<open>
  The callback of \<^verbatim>\<open>jsonResponse.slides.map\<close>:
  \<^verbatim>\<open>slide => ({...slide, id: slide.id || randomUUID(), type: slide.type || 'content'})\<close>.
\<close>

definition enhance_slide :: "(nat \<Rightarrow> string) \<Rightarrow> nat \<Rightarrow> json \<Rightarrow> js_error + (json \<times> nat)" where
  "enhance_slide gen n slide =
     (case get_prop slide ''id'' of
        Inl e \<Rightarrow> Inl e
      | Inr sid \<Rightarrow>
          let (idv, n') = (if truthy_opt sid then (the sid, n) else (JStr (gen n), Suc n)) in
          (case get_prop slide ''type'' of
             Inl e \<Rightarrow> Inl e
           | Inr stype \<Rightarrow>
               let typev = (if truthy_opt stype then the stype else JStr ''content'') in
               Inr (JObj (set_prop ''type'' typev (set_prop ''id'' idv (spread slide))), n')))"

fun enhance_slides :: "(nat \<Rightarrow> string) \<Rightarrow> nat \<Rightarrow> json list \<Rightarrow> js_error + (json list \<times> nat)" where
  "enhance_slides gen n [] = Inr ([], n)"
| "enhance_slides gen n (s # ss) =
     (case enhance_slide gen n s of
        Inl e \<Rightarrow> Inl e
      | Inr (s', n') \<Rightarrow>
          (case enhance_slides gen n' ss of
             Inl e \<Rightarrow> Inl e
           | Inr (ss', n'') \<Rightarrow> Inr (s' # ss', n'')))"

text \<open>
  The body of the \<^verbatim>\<open>try\<close> block, after \<^verbatim>\<open>JSON.parse(content)\<close> returned \<open>jsonResponse\<close>.
  Past the test of \<^verbatim>\<open>slides\<close> the value is an array, so the last case is never taken.
\<close>

definition deck_try :: "(nat \<Rightarrow> string) \<Rightarrow> nat \<Rightarrow> json \<Rightarrow> js_error + (deck \<times> nat)" where
  "deck_try gen n jsonResponse =
     (case get_prop jsonResponse ''slides'' of
        Inl e \<Rightarrow> Inl e
      | Inr sl \<Rightarrow>
          if \<not> truthy_opt sl \<or> \<not> isArray sl
          then Inl (Error ''Invalid response structure: missing slides array'')
          else
            (case the sl of
               JArr ss \<Rightarrow>
                 (case enhance_slides gen n ss of
                    Inl e \<Rightarrow> Inl e
                  | Inr (enhancedSlides, n') \<Rightarrow>
                      (case get_prop jsonResponse ''presentationTitle'' of
                         Inl e \<Rightarrow> Inl e
                       | Inr t \<Rightarrow>
                           Inr (\<lparr> presentationTitle =
                                    (if truthy_opt t then the t else JStr ''Generated Presentation''),
                                  totalSlides = length enhancedSlides,
                                  slides = enhancedSlides \<rparr>, n')))
             | _ \<Rightarrow> Inl TypeError))"

text \<open>
  The \<^verbatim>\<open>try\<close>/\<^verbatim>\<open>catch\<close> of \<^verbatim>\<open>callGroqAPI\<close>: \<open>parsed\<close> is what \<^verbatim>\<open>JSON.parse(content)\<close>
  gave, \<open>None\<close> when it threw. Whatever is thrown inside the block, the parse error
  and the structure error included, is replaced by one and the same error.
\<close>

definition normalize_deck :: "(nat \<Rightarrow> string) \<Rightarrow> nat \<Rightarrow> json option \<Rightarrow> js_error + (deck \<times> nat)" where
  "normalize_deck gen n parsed =
     (case parsed of
        None \<Rightarrow> Inl (Error ''Invalid JSON response from AI model'')
      | Some jsonResponse \<Rightarrow>
          (case deck_try gen n jsonResponse of
             Inl e \<Rightarrow> Inl (Error ''Invalid JSON response from AI model'')
           | Inr r \<Rightarrow> Inr r))"

subsection \<open>Reading the normalizer's input and output\<close>



text \<open>A token supply for the examples, and the completion of the first end-to-end scenario
  with an identifier on the second slide and a wrong slide count added.\<close>

definition sample_uuid :: "nat \<Rightarrow> string" where
  "sample_uuid k = ''uuid-'' @ dec_string k"

definition q1_completion :: json where
  "q1_completion = JObj
     [(''presentationTitle'', JStr ''Q1 Update''),
      (''totalSlides'', JNum ''7''),
      (''slides'', JArr
         [JObj [(''title'', JStr ''Revenue''), (''content'', JStr ''Grew 20%''), (''type'', JStr ''content'')],
          JObj [(''id'', JStr ''s2''), (''title'', JStr ''Hiring''), (''content'', JStr ''5 engineers'')]])]"

section \<open>Image to design tokens: the normalizer of \<^verbatim>\<open>callGroqVisionAPI\<close>\<close>

subsection \<open>\<^verbatim>\<open>JSON.stringify(v, null, 2)\<close>\<close>

text \<open>
  The serializer of the platform, for the values \<^verbatim>\<open>JSON.parse\<close> produces, with a gap of
  two spaces. A string is quoted with the escapes of the standard; a number that is not
  finite is written \<^verbatim>\<open>null\<close>; an empty array or object is written without a line
  break; the members of an object are written in its property order.
\<close>

definition hex_digit :: "nat \<Rightarrow> char" where
  "hex_digit d = ''0123456789abcdef'' ! d"

definition quote_json_char :: "char \<Rightarrow> string" where
  "quote_json_char c =
     (if c = CHR 0x08 then [CHR 0x5C, CHR ''b'']
      else if c = CHR 0x09 then [CHR 0x5C, CHR ''t'']
      else if c = CHR 0x0A then [CHR 0x5C, CHR ''n'']
      else if c = CHR 0x0C then [CHR 0x5C, CHR ''f'']
      else if c = CHR 0x0D then [CHR 0x5C, CHR ''r'']
      else if c = CHR 0x22 then [CHR 0x5C, CHR 0x22]
      else if c = CHR 0x5C then [CHR 0x5C, CHR 0x5C]
      else if (of_char c :: nat) < 32
        then [CHR 0x5C, CHR ''u'', CHR ''0'', CHR ''0'',
              hex_digit (of_char c div 16), hex_digit (of_char c mod 16)]
      else [c])"

definition quote_json_string :: "string \<Rightarrow> string" where
  "quote_json_string s = [CHR 0x22] @ concat (map quote_json_char s) @ [CHR 0x22]"

text \<open>\<^verbatim>\<open>parts.join(sep)\<close>.\<close>

fun join :: "'a list \<Rightarrow> 'a list list \<Rightarrow> 'a list" where
  "join sep [] = []"
| "join sep [x] = x"
| "join sep (x # y # ys) = x @ sep @ join sep (y # ys)"

fun stringify2 :: "string \<Rightarrow> json \<Rightarrow> string"
  and stringify2_items :: "string \<Rightarrow> json list \<Rightarrow> string list"
  and stringify2_members :: "string \<Rightarrow> (string \<times> json) list \<Rightarrow> string list"
where
  "stringify2 indent JNull = ''null''"
| "stringify2 indent (JBool b) = (if b then ''true'' else ''false'')"
| "stringify2 indent (JNum n) = (if n = ''Infinity'' \<or> n = ''-Infinity'' then ''null'' else n)"
| "stringify2 indent (JStr s) = quote_json_string s"
| "stringify2 indent (JArr xs) =
     (if xs = [] then ''[]''
      else ''['' @ [CHR 0x0A] @ (indent @ ''  '')
           @ join ('','' @ [CHR 0x0A] @ (indent @ ''  '')) (stringify2_items (indent @ ''  '') xs)
           @ [CHR 0x0A] @ indent @ '']'')"
| "stringify2 indent (JObj fs) =
     (if fs = [] then ''{}''
      else ''{'' @ [CHR 0x0A] @ (indent @ ''  '')
           @ join ('','' @ [CHR 0x0A] @ (indent @ ''  '')) (stringify2_members (indent @ ''  '') fs)
           @ [CHR 0x0A] @ indent @ ''}'')"
| "stringify2_items indent [] = []"
| "stringify2_items indent (x # xs) = stringify2 indent x # stringify2_items indent xs"
| "stringify2_members indent [] = []"
| "stringify2_members indent ((k, v) # fs) =
     (quote_json_string k @ '': '' @ stringify2 indent v) # stringify2_members indent fs"

definition JSON_stringify2 :: "json \<Rightarrow> string" where
  "JSON_stringify2 v = stringify2 [] v"

subsection \<open>The normalizer\<close>

text \<open>
  What \<^verbatim>\<open>callGroqVisionAPI\<close> returns. The fields are declared as strings, but the code
  passes on whatever value the completion holds, so they are \<open>json\<close> values here.
\<close>

record tokens =
  cssVariables :: json
  analysisResult :: json

text \<open>
  The body of the \<^verbatim>\<open>try\<close> block after \<^verbatim>\<open>JSON.parse(content)\<close> returned \<open>parsedContent\<close>:
  the \<^verbatim>\<open>css\<close> + \<^verbatim>\<open>implementationNote\<close> format, the \<^verbatim>\<open>cssVariables\<close> + \<^verbatim>\<open>analysisResult\<close>
  format, and the fallback that takes the first truthy field of each group. The first
  property read throws on \<^verbatim>\<open>null\<close>; after it none can.
\<close>

definition tokens_try :: "json \<Rightarrow> js_error + tokens" where
  "tokens_try parsedContent =
     (case get_prop parsedContent ''css'' of
        Inl e \<Rightarrow> Inl e
      | Inr css \<Rightarrow>
          let p = js_prop parsedContent in
          if truthy_opt css \<and> truthy_opt (p ''implementationNote'') then
            Inr \<lparr> cssVariables = the css,
                  analysisResult =
                    (if typeof_object (p ''implementationNote'')
                     then JStr (JSON_stringify2 (the (p ''implementationNote'')))
                     else the (p ''implementationNote'')) \<rparr>
          else if truthy_opt (p ''cssVariables'') \<and> truthy_opt (p ''analysisResult'') then
            Inr \<lparr> cssVariables = the (p ''cssVariables''),
                  analysisResult = the (p ''analysisResult'') \<rparr>
          else
            let cssContent =
                  js_or (js_or (js_or css (p ''cssVariables'')) (p ''styles'')) (Some (JStr []));
                analysisContent =
                  js_or (js_or (js_or (p ''implementationNote'') (p ''analysisResult'')) (p ''analysis''))
                        (Some (JStr []));
                analysisContent' =
                  (if typeof_object analysisContent
                   then Some (JStr (JSON_stringify2 (the analysisContent)))
                   else analysisContent)
            in Inr \<lparr> cssVariables = the cssContent, analysisResult = the analysisContent' \<rparr>)"

text \<open>
  The \<^verbatim>\<open>try\<close>/\<^verbatim>\<open>catch\<close>: \<open>parsed\<close> is what \<^verbatim>\<open>JSON.parse(content)\<close> gave, \<open>None\<close> when it threw.
\<close>

definition normalize_tokens :: "json option \<Rightarrow> js_error + tokens" where
  "normalize_tokens parsed =
     (case parsed of
        None \<Rightarrow> Inl (Error ''Invalid JSON response from Groq API'')
      | Some parsedContent \<Rightarrow>
          (case tokens_try parsedContent of
             Inl e \<Rightarrow> Inl (Error ''Invalid JSON response from Groq API'')
           | Inr r \<Rightarrow> Inr r))"

text \<open>The two known shapes, built from a css value and an analysis value.\<close>

definition shape_css_note :: "json \<Rightarrow> json \<Rightarrow> json" where
  "shape_css_note c a = JObj [(''css'', c), (''implementationNote'', a)]"

definition shape_vars_result :: "json \<Rightarrow> json \<Rightarrow> json" where
  "shape_vars_result c a = JObj [(''cssVariables'', c), (''analysisResult'', a)]"

section \<open>String operations of the platform\<close>

text \<open>\<^verbatim>\<open>s.startsWith(p)\<close>, \<^verbatim>\<open>s.indexOf(p)\<close> (\<open>None\<close> for \<^verbatim>\<open>-1\<close>) and \<^verbatim>\<open>s.includes(p)\<close>.\<close>

fun starts_with :: "string \<Rightarrow> string \<Rightarrow> bool" where
  "starts_with s [] = True"
| "starts_with [] (p # ps) = False"
| "starts_with (c # cs) (p # ps) = (c = p \<and> starts_with cs ps)"

fun index_of :: "string \<Rightarrow> string \<Rightarrow> nat option" where
  "index_of [] p = (if p = [] then Some 0 else None)"
| "index_of (c # cs) p =
     (if starts_with (c # cs) p then Some 0 else map_option Suc (index_of cs p))"

definition js_includes :: "string \<Rightarrow> string \<Rightarrow> bool" where
  "js_includes s p = (index_of s p \<noteq> None)"

text \<open>
  \<^verbatim>\<open>str.replace(pattern, replacement)\<close> with a string pattern replaces the first occurrence
  of the pattern, and leaves \<open>str\<close> as it is when there is none. The replacement is a
  template: the standard's GetSubstitution expands \<^verbatim>\<open>$$\<close> to a dollar sign, \<^verbatim>\<open>$&\<close> to the
  matched text, \<^verbatim>\<open>$`\<close> to the text before the match and \<^verbatim>\<open>$'\<close> to the text after it. A
  string pattern has no capture groups, so \<^verbatim>\<open>$1\<close> and \<^verbatim>\<open>$<\<close> stand for themselves, as does
  any other dollar sign.
\<close>

fun get_substitution :: "string \<Rightarrow> string \<Rightarrow> nat \<Rightarrow> string \<Rightarrow> string" where
  "get_substitution matched str position [] = []"
| "get_substitution matched str position [c] = [c]"
| "get_substitution matched str position (c # d # r) =
     (if c = CHR ''$'' then
        (if d = CHR ''$'' then CHR ''$'' # get_substitution matched str position r
         else if d = CHR ''&'' then matched @ get_substitution matched str position r
         else if d = CHR 0x60 then take position str @ get_substitution matched str position r
         else if d = CHR 0x27 then
           drop (position + length matched) str @ get_substitution matched str position r
         else CHR ''$'' # get_substitution matched str position (d # r))
      else c # get_substitution matched str position (d # r))"

definition js_replace :: "string \<Rightarrow> string \<Rightarrow> string \<Rightarrow> string" where
  "js_replace str pattern replacement =
     (case index_of str pattern of
        None \<Rightarrow> str
      | Some position \<Rightarrow>
          take position str
          @ get_substitution pattern str position replacement
          @ drop (position + length pattern) str)"




section \<open>Template resolution in \<^verbatim>\<open>callGroqAPI\<close>\<close>

text \<open>The built-in template, before and after its placeholder.\<close>

definition default_prompt_head :: string where
  "default_prompt_head =
     ''Analyze the following text and convert it into a structured JSON format suitable for creating a PowerPoint presentation. '' @ [CHR 0x0A]
     @ [CHR 0x0A]
     @ ''The JSON should have this exact structure:'' @ [CHR 0x0A]
     @ ''{'' @ [CHR 0x0A]
     @ ''  '' @ [CHR 0x22] @ ''presentationTitle'' @ [CHR 0x22] @ '': '' @ [CHR 0x22] @ ''A descriptive title for the presentation'' @ [CHR 0x22] @ '','' @ [CHR 0x0A]
     @ ''  '' @ [CHR 0x22] @ ''totalSlides'' @ [CHR 0x22] @ '': number,'' @ [CHR 0x0A]
     @ ''  '' @ [CHR 0x22] @ ''slides'' @ [CHR 0x22] @ '': ['' @ [CHR 0x0A]
     @ ''    {'' @ [CHR 0x0A]
     @ ''      '' @ [CHR 0x22] @ ''id'' @ [CHR 0x22] @ '': '' @ [CHR 0x22] @ ''unique-id'' @ [CHR 0x22] @ '','' @ [CHR 0x0A]
     @ ''      '' @ [CHR 0x22] @ ''title'' @ [CHR 0x22] @ '': '' @ [CHR 0x22] @ ''Slide title'' @ [CHR 0x22] @ '','' @ [CHR 0x0A]
     @ ''      '' @ [CHR 0x22] @ ''content'' @ [CHR 0x22] @ '': '' @ [CHR 0x22] @ ''Main content text'' @ [CHR 0x22] @ '','' @ [CHR 0x0A]
     @ ''      '' @ [CHR 0x22] @ ''type'' @ [CHR 0x22] @ '': '' @ [CHR 0x22] @ ''title|content|bullet|image|mixed'' @ [CHR 0x22] @ '','' @ [CHR 0x0A]
     @ ''      '' @ [CHR 0x22] @ ''bullets'' @ [CHR 0x22] @ '': ['' @ [CHR 0x22] @ ''bullet point 1'' @ [CHR 0x22] @ '', '' @ [CHR 0x22] @ ''bullet point 2'' @ [CHR 0x22] @ ''] // only if type is bullet or mixed'' @ [CHR 0x0A]
     @ ''      '' @ [CHR 0x22] @ ''imagePlaceholder'' @ [CHR 0x22] @ '': '' @ [CHR 0x22] @ ''Description of image to be added'' @ [CHR 0x22] @ '' // only if type is image or mixed'' @ [CHR 0x0A]
     @ ''    }'' @ [CHR 0x0A]
     @ ''  ]'' @ [CHR 0x0A]
     @ ''}'' @ [CHR 0x0A]
     @ [CHR 0x0A]
     @ ''Guidelines:'' @ [CHR 0x0A]
     @ ''- Create logical slide breaks based on topics, sections, or natural content flow'' @ [CHR 0x0A]
     @ ''- Use '' @ [CHR 0x27] @ ''title'' @ [CHR 0x27] @ '' type for slide titles and introductions'' @ [CHR 0x0A]
     @ ''- Use '' @ [CHR 0x27] @ ''content'' @ [CHR 0x27] @ '' type for text-heavy slides with paragraphs'' @ [CHR 0x0A]
     @ ''- Use '' @ [CHR 0x27] @ ''bullet'' @ [CHR 0x27] @ '' type for slides with bullet points'' @ [CHR 0x0A]
     @ ''- Use '' @ [CHR 0x27] @ ''image'' @ [CHR 0x27] @ '' type when visual content would enhance the slide'' @ [CHR 0x0A]
     @ ''- Use '' @ [CHR 0x27] @ ''mixed'' @ [CHR 0x27] @ '' type for slides with both text and visual elements'' @ [CHR 0x0A]
     @ ''- Include image placeholders when visual content would be beneficial'' @ [CHR 0x0A]
     @ ''- Ensure each slide has a clear, descriptive title'' @ [CHR 0x0A]
     @ ''- Make content concise but informative'' @ [CHR 0x0A]
     @ ''- Structure content logically for presentation flow'' @ [CHR 0x0A]
     @ [CHR 0x0A]
     @ ''Text to analyze:'' @ [CHR 0x0A]"

definition default_prompt_tail :: string where
  "default_prompt_tail =
     [CHR 0x0A]
     @ [CHR 0x0A]
     @ ''Return only valid JSON, no additional text or explanations.''"

definition default_prompt :: string where
  "default_prompt = default_prompt_head @ ''{text}'' @ default_prompt_tail"

text \<open>
  A stored template, as far as the handlers read it. \<open>find_prompt\<close> is
  \<^verbatim>\<open>SystemPrompt.findById\<close> on the store: the document, nothing, or the error the store
  raises for an identifier it cannot read.
\<close>

record system_prompt =
  prompt :: string
  isActive :: bool

definition build_prompt ::
  "(json \<Rightarrow> js_error + system_prompt option) \<Rightarrow> json option \<Rightarrow> string \<Rightarrow> js_error + string" where
  "build_prompt find_prompt systemPromptId text =
     (if truthy_opt systemPromptId then
        (case find_prompt (the systemPromptId) of
           Inl e \<Rightarrow> Inl e
         | Inr None \<Rightarrow> Inl (Error ''System prompt not found or inactive'')
         | Inr (Some systemPrompt) \<Rightarrow>
             if \<not> isActive systemPrompt then Inl (Error ''System prompt not found or inactive'')
             else Inr (js_replace (prompt systemPrompt) ''{text}'' text))
      else Inr (js_replace default_prompt ''{text}'' text))"

section \<open>Credential encryption: \<^verbatim>\<open>encrypt\<close> and \<^verbatim>\<open>decrypt\<close> of \<^verbatim>\<open>lib/utils.ts\<close>\<close>

text \<open>
  A \<^verbatim>\<open>Buffer\<close> is a list of bytes. \<^verbatim>\<open>buf.toString('hex')\<close> writes two lower-case digits
  per byte. \<^verbatim>\<open>Buffer.from(s, 'hex')\<close> reads pairs of hexadecimal digits of either case
  and stops at the first pair that is not one, or at a single last character.
\<close>

type_synonym bytes = "8 word list"

definition hex_of_byte :: "8 word \<Rightarrow> string" where
  "hex_of_byte b = [hex_digit (unat b div 16), hex_digit (unat b mod 16)]"

definition to_hex :: "bytes \<Rightarrow> string" where
  "to_hex bs = concat (map hex_of_byte bs)"

definition hex_value :: "char \<Rightarrow> nat option" where
  "hex_value c =
     (let n = (of_char c :: nat) in
      if 48 \<le> n \<and> n \<le> 57 then Some (n - 48)
      else if 97 \<le> n \<and> n \<le> 102 then Some (n - 87)
      else if 65 \<le> n \<and> n \<le> 70 then Some (n - 55)
      else None)"

fun from_hex :: "string \<Rightarrow> bytes" where
  "from_hex (a # b # r) =
     (case hex_value a of
        None \<Rightarrow> []
      | Some h \<Rightarrow>
          (case hex_value b of
             None \<Rightarrow> []
           | Some l \<Rightarrow> of_nat (16 * h + l) # from_hex r))"
| "from_hex r = []"

text \<open>\<^verbatim>\<open>s.split(sep)\<close> for a separator of one character: never an empty list.\<close>

fun split_on :: "char \<Rightarrow> string \<Rightarrow> string list" where
  "split_on sep [] = [[]]"
| "split_on sep (c # cs) =
     (if c = sep then [] # split_on sep cs
      else (case split_on sep cs of
              [] \<Rightarrow> [[c]]
            | p # ps \<Rightarrow> (c # p) # ps))"

text \<open>
  What \<^verbatim>\<open>utils.ts\<close> takes from Node's \<^verbatim>\<open>crypto\<close> module and its text codec, with the key
  the module derives from \<^verbatim>\<open>ENCRYPTION_KEY\<close> already applied:
  \<^item> \<open>cipheriv iv m\<close>: \<^verbatim>\<open>createCipheriv('aes-256-cbc', key, iv)\<close>, \<^verbatim>\<open>update\<close> and \<^verbatim>\<open>final\<close> on
    the plain bytes \<open>m\<close>;
  \<^item> \<open>decipheriv iv c\<close>: \<^verbatim>\<open>createDecipheriv('aes-256-cbc', key, iv)\<close>, \<^verbatim>\<open>update\<close> and \<^verbatim>\<open>final\<close>
    on the cipher bytes \<open>c\<close>, \<open>None\<close> when one of them throws (an IV that is not 16 bytes,
    a wrong padding);
  \<^item> \<open>decipher_legacy c\<close>: the same for \<^verbatim>\<open>createDecipher('aes-256-cbc', ENCRYPTION_KEY)\<close>;
  \<^item> \<open>utf8_encode\<close>, \<open>utf8_decode\<close>: the \<^verbatim>\<open>'utf8'\<close> input and output encodings.
\<close>

record crypto =
  cipheriv :: "bytes \<Rightarrow> bytes \<Rightarrow> bytes"
  decipheriv :: "bytes \<Rightarrow> bytes \<Rightarrow> bytes option"
  decipher_legacy :: "bytes \<Rightarrow> bytes option"
  utf8_encode :: "string \<Rightarrow> bytes"
  utf8_decode :: "bytes \<Rightarrow> string"

text \<open>\<^verbatim>\<open>encrypt(text)\<close>, with \<open>iv\<close> the 16 bytes \<^verbatim>\<open>crypto.randomBytes(16)\<close> returned.\<close>

definition encrypt :: "crypto \<Rightarrow> bytes \<Rightarrow> string \<Rightarrow> string" where
  "encrypt L iv text = to_hex iv @ '':'' @ to_hex (cipheriv L iv (utf8_encode L text))"

text \<open>
  \<^verbatim>\<open>decrypt(text)\<close>. \<open>decrypt_primary\<close> is the outer \<^verbatim>\<open>try\<close> block ("new encryption method"),
  \<open>None\<close> when it throws; \<open>decrypt\<close> adds the fallback of the \<^verbatim>\<open>catch\<close>.
\<close>

definition decrypt_primary :: "crypto \<Rightarrow> string \<Rightarrow> string option" where
  "decrypt_primary L text =
     (case split_on CHR '':'' text of
        [] \<Rightarrow> None
      | first # textParts \<Rightarrow>
          let iv = from_hex first;
              encryptedText = join '':'' textParts
          in map_option (utf8_decode L) (decipheriv L iv (from_hex encryptedText)))"

definition decrypt :: "crypto \<Rightarrow> string \<Rightarrow> js_error + string" where
  "decrypt L text =
     (case decrypt_primary L text of
        Some decrypted \<Rightarrow> Inr decrypted
      | None \<Rightarrow>
          (case decipher_legacy L (from_hex (join '':'' (tl (split_on CHR '':'' text)))) of
             Some plain \<Rightarrow> Inr (utf8_decode L plain)
           | None \<Rightarrow> Inl (Error ''Failed to decrypt API key with both methods'')))"

section \<open>The account model: \<^verbatim>\<open>models/User.ts\<close>\<close>

text \<open>An account, with the fields the handlers read, and the collection by identifier.\<close>

record user =
  email :: string
  groqApiKey :: "string option"

type_synonym users = "string \<rightharpoonup> user"

text \<open>
  The \<^verbatim>\<open>pre('save')\<close> hook "Encrypt API key before saving": \<open>modified\<close> is
  \<^verbatim>\<open>this.isModified('groqApiKey')\<close>. It is document middleware: it runs when a document is
  saved with \<^verbatim>\<open>save()\<close>, which is what \<open>save_user\<close> does.
\<close>

definition pre_save_api_key :: "crypto \<Rightarrow> bytes \<Rightarrow> bool \<Rightarrow> user \<Rightarrow> user" where
  "pre_save_api_key L iv modified u =
     (if \<not> modified then u
      else (case groqApiKey u of
              None \<Rightarrow> u
            | Some k \<Rightarrow> if k = [] then u else u\<lparr> groqApiKey := Some (encrypt L iv k) \<rparr>))"

definition save_user :: "crypto \<Rightarrow> bytes \<Rightarrow> bool \<Rightarrow> string \<Rightarrow> user \<Rightarrow> users \<Rightarrow> users" where
  "save_user L iv modified uid u db = db(uid \<mapsto> pre_save_api_key L iv modified u)"

text \<open>\<^verbatim>\<open>user.getDecryptedApiKey()\<close>: \<^verbatim>\<open>null\<close> is \<open>None\<close>.\<close>

definition getDecryptedApiKey :: "crypto \<Rightarrow> user \<Rightarrow> string option" where
  "getDecryptedApiKey L u =
     (case groqApiKey u of
        None \<Rightarrow> None
      | Some k \<Rightarrow>
          if k = [] then None
          else (case decrypt L k of Inl e \<Rightarrow> None | Inr s \<Rightarrow> Some s))"

text \<open>
  A stand-in for the cipher in the examples: it is not AES, but like AES under a fixed
  key it is undone by its decipher under the same IV, and refuses an IV that is not 16
  bytes long. The text codec of the examples maps a character to its byte.
\<close>

definition demo_crypto :: crypto where
  "demo_crypto =
     \<lparr> cipheriv = (\<lambda>iv m. rev m),
       decipheriv = (\<lambda>iv c. if length iv = 16 then Some (rev c) else None),
       decipher_legacy = (\<lambda>c. None),
       utf8_encode = map (\<lambda>c. of_nat (of_char c)),
       utf8_decode = map (\<lambda>b. char_of (unat b)) \<rparr>"

definition demo_iv :: bytes where
  "demo_iv = [0, 1, 2, 3, 4, 5, 6, 7, 8, 9, 10, 11, 12, 13, 14, 255]"

section \<open>The route handlers and their surroundings\<close>

text \<open>
  A handler answers with \<^verbatim>\<open>res.status(n).json(v)\<close> or \<^verbatim>\<open>res.status(n).end(s)\<close>.
\<close>

datatype response = Json nat json | End nat string

definition message :: "string \<Rightarrow> json" where
  "message m = JObj [(''message'', JStr m)]"

text \<open>
  An outbound request to \<^verbatim>\<open>https://api.groq.com/openai/v1/chat/completions\<close>, named by the
  function that sends it, with the values that function puts into the request: the
  bearer credential first, then
  \<^item> \<open>TestKey\<close> (\<^verbatim>\<open>testGroqApiKey\<close>): nothing else;
  \<^item> \<open>DeckCall\<close> (\<^verbatim>\<open>callGroqAPI\<close> of text-to-deck): the model and the resolved prompt;
  \<^item> \<open>VisionCall\<close> (\<^verbatim>\<open>callGroqVisionAPI\<close>): the base64 image and the prompt;
  \<^item> \<open>HtmlCall\<close> (\<^verbatim>\<open>callGroqAPI\<close> of HTML generation): the deck and the design library.
  A handler returns its response together with the list of the requests it sent.
\<close>

datatype groq_call =
    TestKey string
  | DeckCall string string string
  | VisionCall string string string
  | HtmlCall string json json

text \<open>
  What \<^verbatim>\<open>fetch\<close> gives: it throws, or it returns a response, of which the handlers read
  \<^verbatim>\<open>ok\<close>, \<^verbatim>\<open>status\<close>, \<^verbatim>\<open>statusText\<close>, \<^verbatim>\<open>text()\<close> and \<^verbatim>\<open>json()\<close> (which may throw).
\<close>

record reply =
  ok :: bool
  status :: nat
  statusText :: string
  body_text :: string
  body_json :: "js_error + json"

datatype fetch_result = FetchThrows js_error | Fetched reply

text \<open>
  The surroundings of a request:
  \<^item> \<open>session_user\<close>: \<^verbatim>\<open>session?.user?.id\<close> of \<^verbatim>\<open>getServerSession\<close>;
  \<^item> \<open>users\<close>: the account collection, read by \<^verbatim>\<open>User.findById\<close>;
  \<^item> \<open>find_prompt\<close>, \<open>find_design\<close>: \<^verbatim>\<open>SystemPrompt.findById\<close> and \<^verbatim>\<open>DesignLibrary.findById\<close>,
    which give a document, nothing, or the error the store raises for an identifier it
    cannot read;
  \<^item> \<open>create_design\<close>: \<^verbatim>\<open>DesignLibrary.create\<close>, giving the stored document or an error;
  \<^item> \<open>groq\<close>: the remote endpoint's answer to a request;
  \<^item> \<open>JSON_parse\<close>: \<^verbatim>\<open>JSON.parse\<close> on a completion's content, \<open>None\<close> when it throws;
  \<^item> \<open>randomUUID\<close>: the token supply;
  \<^item> \<open>node_crypto\<close>: the cipher and text codec.
\<close>

record env =
  session_user :: "string option"
  users :: users
  find_prompt :: "json \<Rightarrow> js_error + system_prompt option"
  find_design :: "json \<Rightarrow> js_error + json option"
  create_design :: "json \<Rightarrow> js_error + json"
  groq :: "groq_call \<Rightarrow> fetch_result"
  JSON_parse :: "json \<Rightarrow> json option"
  randomUUID :: "nat \<Rightarrow> string"
  node_crypto :: crypto

text \<open>\<^verbatim>\<open>!session?.user?.id\<close> is the negation of \<open>logged_in\<close>.\<close>

definition logged_in :: "env \<Rightarrow> bool" where
  "logged_in E = (case session_user E of None \<Rightarrow> False | Some uid \<Rightarrow> uid \<noteq> [])"

text \<open>\<^verbatim>\<open>user?.groqApiKey\<close> of the logged-in account, \<open>None\<close> when it is falsy.\<close>

definition stored_key_holder :: "env \<Rightarrow> user option" where
  "stored_key_holder E =
     (case users E (the (session_user E)) of
        None \<Rightarrow> None
      | Some u \<Rightarrow>
          (case groqApiKey u of
             None \<Rightarrow> None
           | Some k \<Rightarrow> if k = [] then None else Some u))"

text \<open>
  \<^verbatim>\<open>error.message\<close>. The texts the engine gives its own TypeError and SyntaxError are not
  modelled; they stand as the names of the errors.
\<close>

fun error_message :: "js_error \<Rightarrow> string" where
  "error_message (Error m) = m"
| "error_message TypeError = ''TypeError''"
| "error_message SyntaxError = ''SyntaxError''"

text \<open>\<^verbatim>\<open>data.choices[0]?.message?.content\<close>\<close>

fun index0 :: "json option \<Rightarrow> js_error + json option" where
  "index0 None = Inl TypeError"
| "index0 (Some JNull) = Inl TypeError"
| "index0 (Some (JArr xs)) = Inr (case xs of [] \<Rightarrow> None | x # rest \<Rightarrow> Some x)"
| "index0 (Some (JStr s)) = Inr (case s of [] \<Rightarrow> None | c # rest \<Rightarrow> Some (JStr [c]))"
| "index0 (Some (JObj fs)) = Inr (map_of fs ''0'')"
| "index0 (Some v) = Inr None"

fun opt_chain :: "json option \<Rightarrow> string \<Rightarrow> json option" where
  "opt_chain None k = None"
| "opt_chain (Some JNull) k = None"
| "opt_chain (Some v) k = js_prop v k"

definition first_content :: "json \<Rightarrow> js_error + json option" where
  "first_content data =
     (case get_prop data ''choices'' of
        Inl e \<Rightarrow> Inl e
      | Inr choices \<Rightarrow>
          (case index0 choices of
             Inl e \<Rightarrow> Inl e
           | Inr choice \<Rightarrow> Inr (opt_chain (opt_chain choice ''message'') ''content'')))"

text \<open>
  From the response to the completion's content, as all three callers do it; they
  differ in the texts of their errors: \<open>with_body\<close> says whether the error for a
  response that is not ok quotes the response text, \<open>missing\<close> is the error text for a
  missing content.
\<close>

definition read_content :: "bool \<Rightarrow> string \<Rightarrow> fetch_result \<Rightarrow> js_error + json" where
  "read_content with_body missing fr =
     (case fr of
        FetchThrows e \<Rightarrow> Inl e
      | Fetched r \<Rightarrow>
          if \<not> ok r then
            Inl (Error (''Groq API error: '' @ dec_string (status r) @ '' '' @ statusText r
                        @ (if with_body then '' - '' @ body_text r else [])))
          else
            (case body_json r of
               Inl e \<Rightarrow> Inl e
             | Inr data \<Rightarrow>
                 (case first_content data of
                    Inl e \<Rightarrow> Inl e
                  | Inr content \<Rightarrow>
                      if \<not> truthy_opt content then Inl (Error missing) else Inr (the content))))"

subsection \<open>Text to deck: \<^verbatim>\<open>callGroqAPI\<close> and the handler\<close>

definition callGroqAPI ::
  "env \<Rightarrow> string \<Rightarrow> string \<Rightarrow> string \<Rightarrow> json option \<Rightarrow> (js_error + deck) \<times> groq_call list" where
  "callGroqAPI E apiKey text model systemPromptId =
     (case build_prompt (find_prompt E) systemPromptId text of
        Inl e \<Rightarrow> (Inl e, [])
      | Inr resolved \<Rightarrow>
          let call = DeckCall apiKey model resolved in
          (case read_content False ''No response content from Groq API'' (groq E call) of
             Inl e \<Rightarrow> (Inl e, [call])
           | Inr content \<Rightarrow>
               (case normalize_deck (randomUUID E) 0 (JSON_parse E content) of
                  Inl e \<Rightarrow> (Inl e, [call])
                | Inr (d, n) \<Rightarrow> (Inr d, [call]))))"

definition validModels :: "string list" where
  "validModels = [''openai/gpt-oss-20b'', ''openai/gpt-oss-120b'']"

definition deck_json :: "deck \<Rightarrow> json" where
  "deck_json d =
     JObj [(''presentationTitle'', presentationTitle d),
           (''totalSlides'', JNum (dec_string (totalSlides d))),
           (''slides'', JArr (slides d))]"

text \<open>The \<^verbatim>\<open>catch\<close> of the handler.\<close>

definition text_to_json_catch :: "js_error \<Rightarrow> response" where
  "text_to_json_catch e =
     (if js_includes (error_message e) ''API key'' then
        Json 400 (message ''Invalid API key. Please check your Groq API key in settings.'')
      else if js_includes (error_message e) ''rate limit'' then
        Json 429 (message ''Rate limit exceeded. Please try again later.'')
      else
        Json 500 (JObj [(''message'', JStr ''An error occurred while processing your request''),
                        (''error'', JStr (error_message e))]))"

fun the_string :: "json option \<Rightarrow> string" where
  "the_string (Some (JStr s)) = s"
| "the_string v = []"

definition text_to_json :: "env \<Rightarrow> string \<Rightarrow> json \<Rightarrow> response \<times> groq_call list" where
  "text_to_json E method body =
     (if method \<noteq> ''POST'' then (End 405 (''Method '' @ method @ '' Not Allowed''), [])
      else if \<not> logged_in E then (Json 401 (message ''Unauthorized''), [])
      else
        (case get_prop body ''text'' of
           Inl e \<Rightarrow> (text_to_json_catch e, [])
         | Inr text \<Rightarrow>
             let model = js_prop body ''model'';
                 systemPromptId = js_prop body ''systemPromptId''
             in
             if \<not> truthy_opt text \<or> \<not> typeof_string text then
               (Json 400 (message ''Text content is required''), [])
             else if \<not> truthy_opt model \<or> \<not> typeof_string model then
               (Json 400 (message ''Model selection is required''), [])
             else if the_string model \<notin> set validModels then
               (Json 400 (message ''Invalid model selection''), [])
             else
               (case stored_key_holder E of
                  None \<Rightarrow>
                    (Json 400 (message
                       ''Groq API key is required. Please configure your API key in settings.''), [])
                | Some user \<Rightarrow>
                    (case getDecryptedApiKey (node_crypto E) user of
                       None \<Rightarrow> (Json 500 (message ''Error accessing API key''), [])
                     | Some decryptedApiKey \<Rightarrow>
                         if decryptedApiKey = [] then
                           (Json 500 (message ''Error accessing API key''), [])
                         else
                           (case callGroqAPI E decryptedApiKey (the_string text) (the_string model)
                                   systemPromptId of
                              (Inl e, calls) \<Rightarrow> (text_to_json_catch e, calls)
                            | (Inr result, calls) \<Rightarrow> (Json 200 (deck_json result), calls))))))"

subsection \<open>Design library: \<^verbatim>\<open>callGroqVisionAPI\<close> and the POST branch of the handler\<close>

text \<open>
  The body of a creation request. The handler does not test the kinds of the fields;
  \<open>name\<close>, \<open>description\<close> and \<open>systemPromptId\<close> are only tested for truthiness and are
  any value, the image payload is text, the empty text when it is absent.
\<close>

record design_request =
  dl_name :: "json option"
  dl_description :: "json option"
  imageBase64 :: string
  dl_systemPromptId :: "json option"

text \<open>
  The checks of the POST branch before the size check, the same in both versions of
  the file: they answer, or pass on the decrypted credential and the template.
\<close>

definition design_guards :: "env \<Rightarrow> design_request \<Rightarrow> response + (string \<times> system_prompt)" where
  "design_guards E r =
     (if \<not> logged_in E then Inl (Json 401 (message ''Unauthorized''))
      else if \<not> truthy_opt (dl_name r) \<or> \<not> truthy_opt (dl_description r)
              \<or> imageBase64 r = [] \<or> \<not> truthy_opt (dl_systemPromptId r) then
        Inl (Json 400 (message ''Name, description, image, and system prompt are required''))
      else
        (case find_prompt E (the (dl_systemPromptId r)) of
           Inl e \<Rightarrow> Inl (Json 500 (message ''Internal Server Error''))
         | Inr None \<Rightarrow> Inl (Json 400 (message ''System prompt not found or inactive''))
         | Inr (Some systemPrompt) \<Rightarrow>
             if \<not> isActive systemPrompt then
               Inl (Json 400 (message ''System prompt not found or inactive''))
             else
               (case stored_key_holder E of
                  None \<Rightarrow> Inl (Json 400 (message ''Groq API key not configured''))
                | Some user \<Rightarrow>
                    (case getDecryptedApiKey (node_crypto E) user of
                       None \<Rightarrow> Inl (Json 400 (message ''Invalid Groq API key''))
                     | Some apiKey \<Rightarrow>
                         if apiKey = [] then Inl (Json 400 (message ''Invalid Groq API key''))
                         else if \<not> starts_with apiKey ''gsk_'' then
                           Inl (Json 400 (message ''Invalid Groq API key format''))
                         else if imageBase64 r = [] \<or> length (imageBase64 r) < 100 then
                           Inl (Json 400 (message ''Invalid image data''))
                         else Inr (apiKey, systemPrompt)))))"

text \<open>
  The size check: \<^verbatim>\<open>Math.ceil((imageBase64.length * 3) / 4)\<close> bytes, divided by
  \<^verbatim>\<open>1024 * 1024\<close>, compared with 4. The numbers are exact here as they are in the code:
  the length is far below \<open>2^53\<close> and the divisors are powers of two.
\<close>

definition imageSizeInBytes :: "string \<Rightarrow> int" where
  "imageSizeInBytes img = \<lceil>(of_nat (length img) * 3 / 4 :: rat)\<rceil>"

definition imageSizeInMB :: "string \<Rightarrow> rat" where
  "imageSizeInMB img = of_int (imageSizeInBytes img) / (1024 * 1024)"

definition image_too_large :: "string \<Rightarrow> bool" where
  "image_too_large img = (imageSizeInMB img > 4)"

definition callGroqVisionAPI ::
  "env \<Rightarrow> string \<Rightarrow> string \<Rightarrow> string \<Rightarrow> (js_error + tokens) \<times> groq_call list" where
  "callGroqVisionAPI E apiKey img systemPrompt =
     (let call = VisionCall apiKey img systemPrompt in
      (case read_content True ''No content received from Groq API'' (groq E call) of
         Inl e \<Rightarrow> (Inl e, [call])
       | Inr content \<Rightarrow> (normalize_tokens (JSON_parse E content), [call])))"

definition design_document :: "design_request \<Rightarrow> tokens \<Rightarrow> string \<Rightarrow> json" where
  "design_document r t uid =
     JObj [(''name'', the (dl_name r)),
           (''description'', the (dl_description r)),
           (''cssVariables'', cssVariables t),
           (''analysisResult'', analysisResult t),
           (''systemPromptId'', the (dl_systemPromptId r)),
           (''createdBy'', JStr uid)]"

definition design_library_post :: "env \<Rightarrow> design_request \<Rightarrow> response \<times> groq_call list" where
  "design_library_post E r =
     (case design_guards E r of
        Inl answer \<Rightarrow> (answer, [])
      | Inr (apiKey, systemPrompt) \<Rightarrow>
          if image_too_large (imageBase64 r) then
            (Json 400 (message ''Image too large. Maximum size is 4MB''), [])
          else
            (case callGroqVisionAPI E apiKey (imageBase64 r) (prompt systemPrompt) of
               (Inl e, calls) \<Rightarrow>
                 (Json 400 (message (''Groq API error: '' @ error_message e)), calls)
             | (Inr result, calls) \<Rightarrow>
                 if \<not> truthy (cssVariables result) \<or> \<not> truthy (analysisResult result) then
                   (Json 400 (message ''Failed to analyze image. Please try again.''), calls)
                 else
                   (case create_design E
                           (design_document r result (the (session_user E))) of
                      Inl e \<Rightarrow> (Json 500 (message ''Internal Server Error''), calls)
                    | Inr newDesignLibrary \<Rightarrow> (Json 201 newDesignLibrary, calls))))"

text \<open>
  The earlier version of the file: its normalizer knows one shape only, and the
  handler neither catches the call's error by itself nor checks the result.
\<close>

definition normalize_tokens_v1 :: "json option \<Rightarrow> js_error + tokens" where
  "normalize_tokens_v1 parsed =
     (case parsed of
        None \<Rightarrow> Inl (Error ''Invalid JSON response from Groq API'')
      | Some parsedContent \<Rightarrow>
          (case get_prop parsedContent ''cssVariables'' of
             Inl e \<Rightarrow> Inl (Error ''Invalid JSON response from Groq API'')
           | Inr css \<Rightarrow>
               Inr \<lparr> cssVariables = the (js_or css (Some (JStr []))),
                     analysisResult =
                       the (js_or (js_prop parsedContent ''analysisResult'') (Some (JStr []))) \<rparr>))"

definition design_library_post_v1 :: "env \<Rightarrow> design_request \<Rightarrow> response \<times> groq_call list" where
  "design_library_post_v1 E r =
     (case design_guards E r of
        Inl answer \<Rightarrow> (answer, [])
      | Inr (apiKey, systemPrompt) \<Rightarrow>
          if image_too_large (imageBase64 r) then
            (Json 400 (message ''Image too large. Maximum size is 4MB''), [])
          else
            (let call = VisionCall apiKey (imageBase64 r) (prompt systemPrompt) in
             (case read_content True ''No content received from Groq API'' (groq E call) of
                Inl e \<Rightarrow> (Json 500 (message ''Internal Server Error''), [call])
              | Inr content \<Rightarrow>
                  (case normalize_tokens_v1 (JSON_parse E content) of
                     Inl e \<Rightarrow> (Json 500 (message ''Internal Server Error''), [call])
                   | Inr result \<Rightarrow>
                       (case create_design E
                               (design_document r result (the (session_user E))) of
                          Inl e \<Rightarrow> (Json 500 (message ''Internal Server Error''), [call])
                        | Inr newDesignLibrary \<Rightarrow> (Json 201 newDesignLibrary, [call]))))))"

subsection \<open>HTML generation: the handler of \<^verbatim>\<open>generate-html-presentation.ts\<close>\<close>

text \<open>
  \<^verbatim>\<open>jsonData.slides.length\<close> for the response, where \<^verbatim>\<open>slides\<close> has passed \<^verbatim>\<open>Array.isArray\<close>.
\<close>

fun array_length :: "json option \<Rightarrow> nat" where
  "array_length (Some (JArr xs)) = length xs"
| "array_length v = 0"

definition opt_field :: "string \<Rightarrow> json option \<Rightarrow> (string \<times> json) list" where
  "opt_field k v = (case v of None \<Rightarrow> [] | Some x \<Rightarrow> [(k, x)])"

definition generate_html :: "env \<Rightarrow> string \<Rightarrow> json \<Rightarrow> response \<times> groq_call list" where
  "generate_html E method body =
     (if \<not> logged_in E then (Json 401 (message ''Unauthorized''), [])
      else if method \<noteq> ''POST'' then (Json 405 (message ''Method not allowed''), [])
      else
        (case get_prop body ''jsonData'' of
           Inl e \<Rightarrow> (Json 500 (message ''Internal Server Error''), [])
         | Inr jsonData \<Rightarrow>
             let designLibraryId = js_prop body ''designLibraryId'' in
             if \<not> truthy_opt jsonData \<or> \<not> truthy_opt designLibraryId then
               (Json 400 (message ''JSON data and design library ID are required''), [])
             else if \<not> truthy_opt (js_prop (the jsonData) ''slides'')
                     \<or> \<not> isArray (js_prop (the jsonData) ''slides'')
                     \<or> \<not> truthy_opt (js_prop (the jsonData) ''presentationTitle'') then
               (Json 400 (message ''Invalid JSON data structure''), [])
             else
               (case find_design E (the designLibraryId) of
                  Inl e \<Rightarrow> (Json 500 (message ''Internal Server Error''), [])
                | Inr None \<Rightarrow> (Json 404 (message ''Design library not found''), [])
                | Inr (Some designLibrary) \<Rightarrow>
                    (case stored_key_holder E of
                       None \<Rightarrow> (Json 400 (message ''Groq API key not configured''), [])
                     | Some user \<Rightarrow>
                         (case getDecryptedApiKey (node_crypto E) user of
                            None \<Rightarrow> (Json 400 (message ''Invalid Groq API key''), [])
                          | Some apiKey \<Rightarrow>
                              if apiKey = [] then (Json 400 (message ''Invalid Groq API key''), [])
                              else if \<not> starts_with apiKey ''gsk_'' then
                                (Json 400 (message ''Invalid Groq API key format''), [])
                              else
                                (let call = HtmlCall apiKey (the jsonData) designLibrary in
                                 (case read_content True ''No content received from Groq API''
                                         (groq E call) of
                                    Inl e \<Rightarrow> (Json 500 (message ''Internal Server Error''), [call])
                                  | Inr htmlPresentation \<Rightarrow>
                                      (Json 200
                                         (JObj ([(''html'', htmlPresentation)]
                                            @ opt_field ''designLibraryName''
                                                (js_prop designLibrary ''name'')
                                            @ [(''presentationTitle'',
                                                  the (js_prop (the jsonData) ''presentationTitle'')),
                                               (''totalSlides'',
                                                  JNum (dec_string (array_length
                                                     (js_prop (the jsonData) ''slides''))))])),
                                       [call]))))))))"

subsection \<open>Credential settings: the handler of \<^verbatim>\<open>settings.ts\<close>\<close>

text \<open>
  The text of a value in a template literal, as in \<^verbatim>\<open>`Bearer ${apiKey}`\<close>: an array
  prints its elements separated by commas, \<^verbatim>\<open>null\<close> among them as nothing.
\<close>

fun to_text :: "json \<Rightarrow> string"
  and to_text_items :: "json list \<Rightarrow> string list"
where
  "to_text JNull = ''null''"
| "to_text (JBool b) = (if b then ''true'' else ''false'')"
| "to_text (JNum n) = n"
| "to_text (JStr s) = s"
| "to_text (JArr xs) = join '','' (to_text_items xs)"
| "to_text (JObj fs) = ''[object Object]''"
| "to_text_items [] = []"
| "to_text_items (x # xs) = (if x = JNull then [] else to_text x) # to_text_items xs"

text \<open>\<^verbatim>\<open>testGroqApiKey\<close>: the answer and the request it sent.\<close>

definition testGroqApiKey :: "env \<Rightarrow> string \<Rightarrow> bool \<times> groq_call list" where
  "testGroqApiKey E apiKey =
     (case groq E (TestKey apiKey) of
        FetchThrows e \<Rightarrow> (False, [TestKey apiKey])
      | Fetched r \<Rightarrow> (ok r, [TestKey apiKey]))"

definition settings_get :: "env \<Rightarrow> response" where
  "settings_get E =
     (if \<not> logged_in E then Json 401 (message ''Unauthorized'')
      else Json 200 (JObj [(''hasApiKey'', JBool (stored_key_holder E \<noteq> None))]))"

text \<open>
  The value the store writes for \<^verbatim>\<open>groqApiKey\<close>, a path of type String: a string as it
  is, a number or boolean as its text; an array or object is refused. (The white space
  the schema trims is not modelled.)
\<close>

fun cast_string :: "json \<Rightarrow> js_error + string" where
  "cast_string (JStr s) = Inr s"
| "cast_string (JNum n) = Inr n"
| "cast_string (JBool b) = Inr (if b then ''true'' else ''false'')"
| "cast_string v = Inl (Error ''Cast to string failed'')"

text \<open>
  The PUT branch. \<^verbatim>\<open>User.findByIdAndUpdate(id, updateData)\<close> sends the update to the
  store: it sets or unsets the field of the stored document, if there is one. It is a
  query, not \<^verbatim>\<open>save()\<close>, so the \<^verbatim>\<open>pre('save')\<close> hooks of the schema do not run. The result
  is the response, the requests sent and the account collection afterwards.
\<close>

definition settings_put :: "env \<Rightarrow> json \<Rightarrow> response \<times> groq_call list \<times> users" where
  "settings_put E body =
     (if \<not> logged_in E then (Json 401 (message ''Unauthorized''), [], users E)
      else
        (case get_prop body ''groqApiKey'' of
           Inl e \<Rightarrow> (Json 500 (message ''Internal Server Error''), [], users E)
         | Inr key \<Rightarrow>
             let uid = the (session_user E) in
             if truthy_opt key then
               (case testGroqApiKey E (to_text (the key)) of
                  (isValid, calls) \<Rightarrow>
                    if \<not> isValid then (Json 400 (message ''Invalid API key''), calls, users E)
                    else
                      (case cast_string (the key) of
                         Inl e \<Rightarrow> (Json 500 (message ''Internal Server Error''), calls, users E)
                       | Inr stored \<Rightarrow>
                           (Json 200 (JObj [(''message'', JStr ''API key updated successfully''),
                                            (''hasApiKey'', JBool True)]),
                            calls,
                            (case users E uid of
                               None \<Rightarrow> users E
                             | Some u \<Rightarrow> (users E)(uid \<mapsto> u\<lparr> groqApiKey := Some stored \<rparr>)))))
             else
               (Json 200 (JObj [(''message'', JStr ''API key removed successfully''),
                                (''hasApiKey'', JBool False)]),
                [],
                (case users E uid of
                   None \<Rightarrow> users E
                 | Some u \<Rightarrow> (users E)(uid \<mapsto> u\<lparr> groqApiKey := None \<rparr>)))))"

subsection \<open>Surroundings for the examples\<close>

text \<open>
  One logged-in account \<^verbatim>\<open>u1\<close> whose stored credential is the encryption of the given
  text; every template and design library is found; the remote endpoint answers every
  request with a completion, which parses to the deck of the first scenario.
\<close>

definition demo_reply :: reply where
  "demo_reply =
     \<lparr> ok = True, status = 200, statusText = ''OK'', body_text = [],
       body_json = Inr (JObj [(''choices'',
                     JArr [JObj [(''message'', JObj [(''content'', JStr ''{...}'')])]])]) \<rparr>"

definition demo_env :: "string \<Rightarrow> env" where
  "demo_env credential =
     \<lparr> session_user = Some ''u1'',
       users = [''u1'' \<mapsto> \<lparr> email = ''ann@example.org'',
                               groqApiKey = Some (encrypt demo_crypto demo_iv credential) \<rparr>],
       find_prompt = (\<lambda>i. Inr (Some \<lparr> prompt = ''List the design tokens.'', isActive = True \<rparr>)),
       find_design = (\<lambda>i. Inr (Some (JObj [(''name'', JStr ''Brand'')]))),
       create_design = (\<lambda>d. Inr d),
       groq = (\<lambda>c. Fetched demo_reply),
       JSON_parse = (\<lambda>c. Some q1_completion),
       randomUUID = sample_uuid,
       node_crypto = demo_crypto \<rparr>"

text \<open>A creation request whose image payload has \<open>n\<close> characters.\<close>

definition demo_design_request :: "nat \<Rightarrow> design_request" where
  "demo_design_request n =
     \<lparr> dl_name = Some (JStr ''Brand''), dl_description = Some (JStr ''From the site''),
       imageBase64 = replicate n CHR ''A'', dl_systemPromptId = Some (JStr ''p1'') \<rparr>"

text \<open>
  The credential a handler works with: the decrypted key of the logged-in account.
\<close>

definition resolved_credential :: "env \<Rightarrow> string option" where
  "resolved_credential E =
     (case stored_key_holder E of
        None \<Rightarrow> None
      | Some u \<Rightarrow> getDecryptedApiKey (node_crypto E) u)"

section \<open>Shared proposals: \<^verbatim>\<open>getServerSideProps\<close> of the proposal page\<close>













section \<open>Properties of the deck normalizer\<close>


lemma get_prop_nonnull: "s \<noteq> JNull \<Longrightarrow> get_prop s k = Inr (js_prop s k)"
  by (cases s) (simp_all add: js_prop_def)












section \<open>Properties of the design-token normalizer\<close>

lemma stringify2_grid:
  "JSON_stringify2 (JObj [(''approach'', JStr ''grid'')])
     = ''{'' @ [CHR 0x0A] @ ''  '' @ [CHR 0x22] @ ''approach'' @ [CHR 0x22] @ '': ''
         @ [CHR 0x22] @ ''grid'' @ [CHR 0x22] @ [CHR 0x0A] @ ''}''"
  by (simp add: JSON_stringify2_def quote_json_string_def quote_json_char_def)

text \<open>
  C2 (as amended). A completion with truthy \<^verbatim>\<open>css\<close> and \<^verbatim>\<open>implementationNote\<close> is reshaped
  into the pair \<open>cssVariables = css\<close>, \<open>analysisResult = implementationNote\<close>, where a note
  that is an object or an array is replaced by its pretty-printed JSON text and any
  other note is passed on as it is. A completion of the other shape, with truthy
  \<^verbatim>\<open>cssVariables\<close> and \<^verbatim>\<open>analysisResult\<close>, the latter not an object or array, is returned
  unchanged. So the two shapes built from the same css value and the same analysis
  value that is not an object or array normalize to the same pair.
\<close>

theorem normalize_tokens_shapes:
  "(js_prop pc ''css'' = Some c \<and> truthy c \<and> js_prop pc ''implementationNote'' = Some a \<and> truthy a \<longrightarrow>
      normalize_tokens (Some pc) =
        Inr \<lparr> cssVariables = c,
              analysisResult = (if typeof_object (Some a) then JStr (JSON_stringify2 a) else a) \<rparr>)
   \<and> (\<not> (truthy_opt (js_prop pc ''css'') \<and> truthy_opt (js_prop pc ''implementationNote''))
        \<and> js_prop pc ''cssVariables'' = Some c \<and> truthy c
        \<and> js_prop pc ''analysisResult'' = Some a \<and> truthy a \<and> \<not> typeof_object (Some a) \<longrightarrow>
      normalize_tokens (Some pc) = Inr \<lparr> cssVariables = c, analysisResult = a \<rparr>)
   \<and> (truthy c \<and> truthy a \<and> \<not> typeof_object (Some a) \<longrightarrow>
      normalize_tokens (Some (shape_css_note c a)) = Inr \<lparr> cssVariables = c, analysisResult = a \<rparr>
      \<and> normalize_tokens (Some (shape_vars_result c a)) = Inr \<lparr> cssVariables = c, analysisResult = a \<rparr>)"
proof (intro conjI impI)
  assume h: "js_prop pc ''css'' = Some c \<and> truthy c \<and> js_prop pc ''implementationNote'' = Some a \<and> truthy a"
  then have "pc \<noteq> JNull" by (auto simp: js_prop_def)
  then have "get_prop pc ''css'' = Inr (js_prop pc ''css'')" by (rule get_prop_nonnull)
  with h show "normalize_tokens (Some pc) =
        Inr \<lparr> cssVariables = c,
              analysisResult = (if typeof_object (Some a) then JStr (JSON_stringify2 a) else a) \<rparr>"
    by (simp add: normalize_tokens_def tokens_try_def)
next
  assume h: "\<not> (truthy_opt (js_prop pc ''css'') \<and> truthy_opt (js_prop pc ''implementationNote''))
        \<and> js_prop pc ''cssVariables'' = Some c \<and> truthy c
        \<and> js_prop pc ''analysisResult'' = Some a \<and> truthy a \<and> \<not> typeof_object (Some a)"
  then have "pc \<noteq> JNull" by (auto simp: js_prop_def)
  then have "get_prop pc ''css'' = Inr (js_prop pc ''css'')" by (rule get_prop_nonnull)
  with h show "normalize_tokens (Some pc) = Inr \<lparr> cssVariables = c, analysisResult = a \<rparr>"
    by (auto simp add: normalize_tokens_def tokens_try_def)
next
  assume h: "truthy c \<and> truthy a \<and> \<not> typeof_object (Some a)"
  then show "normalize_tokens (Some (shape_css_note c a)) = Inr \<lparr> cssVariables = c, analysisResult = a \<rparr>"
    by (simp add: normalize_tokens_def tokens_try_def shape_css_note_def js_prop_def)
next
  assume h: "truthy c \<and> truthy a \<and> \<not> typeof_object (Some a)"
  then show "normalize_tokens (Some (shape_vars_result c a)) = Inr \<lparr> cssVariables = c, analysisResult = a \<rparr>"
    by (simp add: normalize_tokens_def tokens_try_def shape_vars_result_def js_prop_def)
qed

theorem normalize_tokens_shapes_witness:
  "normalize_tokens (Some (JObj [(''css'', JStr '':root{--c:#fff;}''),
                                 (''implementationNote'', JObj [(''approach'', JStr ''grid'')])]))
     = Inr \<lparr> cssVariables = JStr '':root{--c:#fff;}'',
             analysisResult = JStr (''{'' @ [CHR 0x0A] @ ''  '' @ [CHR 0x22] @ ''approach'' @ [CHR 0x22] @ '': ''
                                     @ [CHR 0x22] @ ''grid'' @ [CHR 0x22] @ [CHR 0x0A] @ ''}'') \<rparr>
   \<and> normalize_tokens (Some (JObj [(''cssVariables'', JStr '':root{--c:#fff;}''),
                                   (''analysisResult'', JStr ''Use a grid.'')]))
     = Inr \<lparr> cssVariables = JStr '':root{--c:#fff;}'', analysisResult = JStr ''Use a grid.'' \<rparr>
   \<and> normalize_tokens (Some (shape_css_note (JStr '':root{--c:#fff;}'') (JStr ''Use a grid.'')))
     = normalize_tokens (Some (shape_vars_result (JStr '':root{--c:#fff;}'') (JStr ''Use a grid.'')))"
proof -
  let ?c = "JStr '':root{--c:#fff;}''"
  let ?note = "JObj [(''approach'', JStr ''grid'')]"
  let ?a = "JStr ''Use a grid.''"
  let ?pc1 = "JObj [(''css'', ?c), (''implementationNote'', ?note)]"
  let ?pc2 = "JObj [(''cssVariables'', ?c), (''analysisResult'', ?a)]"
  have h1: "js_prop ?pc1 ''css'' = Some ?c \<and> truthy ?c
             \<and> js_prop ?pc1 ''implementationNote'' = Some ?note \<and> truthy ?note"
    by (simp add: js_prop_def)
  have h2: "\<not> (truthy_opt (js_prop ?pc2 ''css'') \<and> truthy_opt (js_prop ?pc2 ''implementationNote''))
        \<and> js_prop ?pc2 ''cssVariables'' = Some ?c \<and> truthy ?c
        \<and> js_prop ?pc2 ''analysisResult'' = Some ?a \<and> truthy ?a \<and> \<not> typeof_object (Some ?a)"
    by (simp add: js_prop_def)
  have h3: "truthy ?c \<and> truthy ?a \<and> \<not> typeof_object (Some ?a)"
    by simp
  from normalize_tokens_shapes [of ?pc1 ?c ?note] h1
  have r1: "normalize_tokens (Some ?pc1) =
        Inr \<lparr> cssVariables = ?c,
              analysisResult = (if typeof_object (Some ?note) then JStr (JSON_stringify2 ?note) else ?note) \<rparr>"
    by blast
  from normalize_tokens_shapes [of ?pc2 ?c ?a] h2
  have r2: "normalize_tokens (Some ?pc2) = Inr \<lparr> cssVariables = ?c, analysisResult = ?a \<rparr>"
    by blast
  from normalize_tokens_shapes [of JNull ?c ?a] h3
  have r3: "normalize_tokens (Some (shape_css_note ?c ?a)) = normalize_tokens (Some (shape_vars_result ?c ?a))"
    by simp
  show ?thesis
    using r1 r2 r3 by (simp add: stringify2_grid)
qed

text \<open>
  The claim as stated fails twice. A note that is neither a string nor an object, here
  \<^verbatim>\<open>true\<close>, is not turned into text. And an analysis value that is an object is
  serialized when it comes as \<^verbatim>\<open>implementationNote\<close> but passed on as an object when it
  comes as \<^verbatim>\<open>analysisResult\<close>, so the two shapes give different results.
\<close>

theorem normalize_tokens_not_canonical:
  "normalize_tokens (Some (JObj [(''css'', JStr '':root{}''), (''implementationNote'', JBool True)]))
     = Inr \<lparr> cssVariables = JStr '':root{}'', analysisResult = JBool True \<rparr>
   \<and> normalize_tokens (Some (JObj [(''cssVariables'', JStr '':root{}''),
                                   (''analysisResult'', JObj [(''approach'', JStr ''grid'')])]))
     = Inr \<lparr> cssVariables = JStr '':root{}'',
             analysisResult = JObj [(''approach'', JStr ''grid'')] \<rparr>
   \<and> normalize_tokens (Some (JObj [(''css'', JStr '':root{}''),
                                   (''implementationNote'', JObj [(''approach'', JStr ''grid'')])]))
     \<noteq> normalize_tokens (Some (JObj [(''cssVariables'', JStr '':root{}''),
                                   (''analysisResult'', JObj [(''approach'', JStr ''grid'')])]))"
  by (simp add: normalize_tokens_def tokens_try_def js_prop_def)

section \<open>Properties of template resolution\<close>

lemma starts_with_iff: "starts_with s p \<longleftrightarrow> (\<exists>r. s = p @ r)"
  by (induction s p rule: starts_with.induct) auto

lemma get_substitution_literal:
  "CHR ''$'' \<notin> set r \<Longrightarrow> get_substitution m s pos r = r"
  by (induction m s pos r rule: get_substitution.induct) auto

lemma index_of_take_drop:
  "index_of s p = Some n \<Longrightarrow> s = take n s @ p @ drop (n + length p) s"
proof (induction s arbitrary: n)
  case Nil
  then show ?case by (simp split: if_splits)
next
  case (Cons c cs)
  show ?case
  proof (cases "starts_with (c # cs) p")
    case True
    then obtain r where "c # cs = p @ r" by (auto simp: starts_with_iff)
    moreover from True Cons.prems have "n = 0" by simp
    ultimately show ?thesis by simp
  next
    case False
    with Cons.prems obtain m where m: "index_of cs p = Some m" and n: "n = Suc m" by auto
    from Cons.IH [OF m] have "cs = take m cs @ p @ drop (m + length p) cs" .
    then have "c # cs = c # (take m cs @ p @ drop (m + length p) cs)" by simp
    then show ?thesis unfolding n by simp
  qed
qed

lemma index_of_bound: "index_of s p = Some n \<Longrightarrow> n + length p \<le> length s"
proof (induction s arbitrary: n)
  case Nil
  then show ?case by (simp split: if_splits)
next
  case (Cons c cs)
  show ?case
  proof (cases "starts_with (c # cs) p")
    case True
    then obtain r where "c # cs = p @ r" by (auto simp: starts_with_iff)
    then have "length (c # cs) = length p + length r" by (metis length_append)
    moreover from True Cons.prems have "n = 0" by simp
    ultimately show ?thesis by simp
  next
    case False
    with Cons.prems obtain m where m: "index_of cs p = Some m" and n: "n = Suc m" by auto
    from Cons.IH [OF m] show ?thesis unfolding n by simp
  qed
qed

text \<open>
  Where the caller's text holds no dollar sign, it is inserted as it is in place of the
  first placeholder, and reading the resolved prompt at that place gives it back.
\<close>

lemma js_replace_literal:
  assumes "index_of template ''{text}'' = Some n" and "CHR ''$'' \<notin> set text"
  shows "js_replace template ''{text}'' text
           = take n template @ text @ drop (n + length ''{text}'') template"
    and "take (length text) (drop n (js_replace template ''{text}'' text)) = text"
proof -
  show r: "js_replace template ''{text}'' text
             = take n template @ text @ drop (n + length ''{text}'') template"
    using assms by (simp add: js_replace_def get_substitution_literal)
  from index_of_bound [OF assms(1)] have "n \<le> length template" by simp
  then show "take (length text) (drop n (js_replace template ''{text}'' text)) = text"
    unfolding r by simp
qed

lemma default_prompt_head_length: "length default_prompt_head = 1233"
  by code_simp

lemma default_prompt_placeholder: "index_of default_prompt ''{text}'' = Some 1233"
  by code_simp

text \<open>
  The built-in template has its one placeholder after the head: a text without a
  dollar sign is inserted between head and tail as it is.
\<close>

lemma default_prompt_literal:
  assumes "CHR ''$'' \<notin> set text"
  shows "build_prompt f None text = Inr (default_prompt_head @ text @ default_prompt_tail)"
proof -
  have r: "js_replace default_prompt ''{text}'' text
          = take 1233 default_prompt @ text @ drop (1233 + length ''{text}'') default_prompt"
    using default_prompt_placeholder assms by (rule js_replace_literal)
  have t: "take 1233 default_prompt = default_prompt_head"
    unfolding default_prompt_def using default_prompt_head_length by simp
  have "drop (1233 + length ''{text}'') default_prompt
          = drop (length ''{text}'') (drop 1233 default_prompt)"
    by (simp add: add.commute)
  also have "drop 1233 default_prompt = ''{text}'' @ default_prompt_tail"
    unfolding default_prompt_def using default_prompt_head_length by simp
  also have "drop (length ''{text}'') (''{text}'' @ default_prompt_tail) = default_prompt_tail"
    by simp
  finally have d: "drop (1233 + length ''{text}'') default_prompt = default_prompt_tail" .
  show ?thesis by (simp add: build_prompt_def r t d del: length_Cons list.size)
qed

text \<open>
  C5. The claim fails where the caller's text holds a dollar pattern: \<^verbatim>\<open>$$\<close> in the text
  reaches the prompt as a single dollar sign, and \<^verbatim>\<open>$&\<close> as the placeholder itself, so the
  substituted region is not the caller's text.
\<close>

theorem js_replace_dollar_patterns:
  "js_replace ''Summarize: {text}'' ''{text}'' ''Save $$ today'' = ''Summarize: Save $ today''
   \<and> js_replace ''Summarize: {text}'' ''{text}'' ''what does $& mean?''
       = ''Summarize: what does {text} mean?''"
  by (simp add: js_replace_def)

section \<open>Properties of the credential envelope\<close>

lemma lt16_cases:
  "d < 16 \<Longrightarrow> d \<in> {0, 1, 2, 3, 4, 5, 6, 7, 8, 9, 10, 11, 12, 13, 14, 15::nat}"
  by simp arith

lemma hex_value_hex_digit: "d < 16 \<Longrightarrow> hex_value (hex_digit d) = Some d"
  by (drule lt16_cases) (auto simp: hex_value_def hex_digit_def)

lemma hex_digit_not_colon: "d < 16 \<Longrightarrow> hex_digit d \<noteq> CHR '':''"
  by (drule lt16_cases) (auto simp: hex_digit_def)

lemma unat_byte_split: "unat (b :: 8 word) div 16 < 16" "unat b mod 16 < 16"
proof -
  have "unat b < 2 ^ LENGTH(8)" by (rule unsigned_less)
  then have "unat b < 256" by simp
  then show "unat b div 16 < 16" by simp
  show "unat b mod 16 < 16" by simp
qed

lemma from_hex_byte:
  "from_hex (hex_of_byte b @ r) = b # from_hex r"
proof -
  have "(of_nat (16 * (unat b div 16) + unat b mod 16) :: 8 word) = b"
    by simp
  then show ?thesis
    by (simp add: hex_of_byte_def hex_value_hex_digit unat_byte_split)
qed

lemma from_hex_to_hex: "from_hex (to_hex bs) = bs"
  by (induction bs) (simp_all add: to_hex_def from_hex_byte)

lemma hex_of_byte_no_colon: "CHR '':'' \<notin> set (hex_of_byte b)"
  using hex_digit_not_colon [OF unat_byte_split(1), of b] hex_digit_not_colon [OF unat_byte_split(2), of b]
  by (auto simp: hex_of_byte_def)

lemma to_hex_no_colon: "CHR '':'' \<notin> set (to_hex bs)"
  by (induction bs) (simp_all add: to_hex_def hex_of_byte_no_colon)

lemma split_on_nonempty: "split_on sep s \<noteq> []"
  by (induction s) (auto split: list.splits)

lemma split_on_prefix:
  "sep \<notin> set a \<Longrightarrow> split_on sep (a @ sep # b) = a # split_on sep b"
  by (induction a) (auto split: list.splits)

lemma join_split_on: "join [sep] (split_on sep s) = s"
proof (induction s)
  case Nil
  show ?case by simp
next
  case (Cons c cs)
  show ?case
  proof (cases "c = sep")
    case True
    obtain p ps where "split_on sep cs = p # ps"
      using split_on_nonempty [of sep cs] by (cases "split_on sep cs") auto
    with True Cons.IH show ?thesis by simp
  next
    case False
    obtain p ps where s: "split_on sep cs = p # ps"
      using split_on_nonempty [of sep cs] by (cases "split_on sep cs") auto
    with Cons.IH have "join [sep] (p # ps) = cs" by simp
    then have "join [sep] ((c # p) # ps) = c # cs" by (cases ps) auto
    with False s show ?thesis by simp
  qed
qed

lemma demo_codec: "utf8_decode demo_crypto (utf8_encode demo_crypto s) = s"
proof -
  have "char_of (unat (of_nat (of_char c) :: 8 word)) = c" for c :: char
  proof -
    have "(of_char c :: nat) < 256" by simp
    then have "unat (of_nat (of_char c) :: 8 word) = of_char c"
      by (simp add: unat_of_nat)
    then show ?thesis by simp
  qed
  then show ?thesis by (simp add: demo_crypto_def o_def)
qed

lemma decrypt_primary_encrypt:
  assumes iv: "length iv = 16"
    and aes: "\<And>v m. length v = 16 \<Longrightarrow> decipheriv L v (cipheriv L v m) = Some m"
    and utf8: "utf8_decode L (utf8_encode L s) = s"
  shows "decrypt_primary L (encrypt L iv s) = Some s"
proof -
  let ?c = "cipheriv L iv (utf8_encode L s)"
  have sp: "split_on CHR '':'' (encrypt L iv s) = to_hex iv # split_on CHR '':'' (to_hex ?c)"
    unfolding encrypt_def using split_on_prefix [OF to_hex_no_colon, of iv "to_hex ?c"] by simp
  show ?thesis
    unfolding decrypt_primary_def sp
    using join_split_on [of "CHR '':''" "to_hex ?c"]
    by (simp add: from_hex_to_hex aes [OF iv] utf8)
qed

lemma demo_key:
  "getDecryptedApiKey demo_crypto \<lparr> email = e, groqApiKey = Some (encrypt demo_crypto demo_iv s) \<rparr>
     = Some s"
proof -
  have iv: "length demo_iv = 16" by (simp add: demo_iv_def)
  have aes: "decipheriv demo_crypto v (cipheriv demo_crypto v m) = Some m" if "length v = 16" for v m
    using that by (simp add: demo_crypto_def)
  have "decrypt_primary demo_crypto (encrypt demo_crypto demo_iv s) = Some s"
    using iv aes demo_codec by (rule decrypt_primary_encrypt)
  moreover have "encrypt demo_crypto demo_iv s \<noteq> []"
    by (simp add: encrypt_def)
  ultimately show ?thesis by (simp add: getDecryptedApiKey_def decrypt_def)
qed



section \<open>Properties of the route handlers\<close>

subsection \<open>The example surroundings\<close>

lemma demo_logged_in: "logged_in (demo_env k)"
  by (simp add: logged_in_def demo_env_def)

lemma demo_holder:
  "stored_key_holder (demo_env k)
     = Some \<lparr> email = ''ann@example.org'', groqApiKey = Some (encrypt demo_crypto demo_iv k) \<rparr>"
  by (simp add: stored_key_holder_def demo_env_def encrypt_def)

lemma demo_fields:
  "node_crypto (demo_env k) = demo_crypto"
  "session_user (demo_env k) = Some ''u1''"
  "find_prompt (demo_env k) i = Inr (Some \<lparr> prompt = ''List the design tokens.'', isActive = True \<rparr>)"
  "find_design (demo_env k) i = Inr (Some (JObj [(''name'', JStr ''Brand'')]))"
  "create_design (demo_env k) d = Inr d"
  "groq (demo_env k) c = Fetched demo_reply"
  "JSON_parse (demo_env k) v = Some q1_completion"
  "randomUUID (demo_env k) = sample_uuid"
  by (simp_all add: demo_env_def)

lemma demo_design_guards:
  "100 \<le> n \<Longrightarrow>
   design_guards (demo_env ''gsk_abc'') (demo_design_request n)
     = Inr (''gsk_abc'', \<lparr> prompt = ''List the design tokens.'', isActive = True \<rparr>)"
  by (simp add: design_guards_def demo_logged_in demo_holder demo_fields demo_key
        demo_design_request_def)

lemma demo_image: "imageBase64 (demo_design_request n) = replicate n CHR ''A''"
  by (simp add: demo_design_request_def)

subsection \<open>Text to deck: the model selector\<close>

lemma typeof_string_the_string: "typeof_string v \<Longrightarrow> v = Some (JStr (the_string v))"
  by (cases v rule: typeof_string.cases) simp_all

lemma text_to_json_catch_not_200: "text_to_json_catch e \<noteq> Json 200 v"
  by (simp add: text_to_json_catch_def)

lemma text_to_json_bad_model:
  assumes "js_prop body ''model'' \<notin> (\<lambda>m. Some (JStr m)) ` set validModels"
  shows "snd (text_to_json E method body) = []"
    and "fst (text_to_json E method body) \<noteq> Json 200 v"
proof -
  have bad: "\<not> truthy_opt (js_prop body ''model'') \<or> \<not> typeof_string (js_prop body ''model'')
             \<or> the_string (js_prop body ''model'') \<notin> set validModels"
  proof (rule ccontr)
    assume "\<not> ?thesis"
    then have "typeof_string (js_prop body ''model'')"
      and "the_string (js_prop body ''model'') \<in> set validModels" by simp_all
    with typeof_string_the_string [of "js_prop body ''model''"]
    have "js_prop body ''model'' \<in> (\<lambda>m. Some (JStr m)) ` set validModels"
      by (metis imageI)
    with assms show False by simp
  qed
  show "snd (text_to_json E method body) = []"
    using bad by (cases "get_prop body ''text''") (auto simp: text_to_json_def Let_def)
  show "fst (text_to_json E method body) \<noteq> Json 200 v"
    using bad
    by (cases "get_prop body ''text''") (auto simp: text_to_json_def Let_def text_to_json_catch_not_200)
qed

text \<open>
  C8. The text-to-deck handler accepts a model selector only from the list of the two
  models \<^verbatim>\<open>openai/gpt-oss-20b\<close> and \<^verbatim>\<open>openai/gpt-oss-120b\<close>. For every other selector,
  whatever the rest of the request, it sends no request to the remote endpoint and
  does not answer 200. A request that passes the checks before the selector's (a POST
  of a logged-in user with a text) is answered 400 \<^verbatim>\<open>Invalid model selection\<close> when the
  selector is a string that is not on the list, and 400 \<^verbatim>\<open>Model selection is required\<close>
  when it is absent, empty or not a string.
\<close>

theorem text_to_json_model_allow_list:
  "(js_prop body ''model'' \<notin> (\<lambda>m. Some (JStr m)) ` set validModels \<longrightarrow>
      snd (text_to_json E method body) = []
      \<and> (\<forall>v. fst (text_to_json E method body) \<noteq> Json 200 v))
   \<and> (method = ''POST'' \<and> logged_in E \<and> js_prop body ''text'' = Some (JStr t) \<and> t \<noteq> []
        \<and> js_prop body ''model'' = Some (JStr m) \<and> m \<noteq> [] \<and> m \<notin> set validModels \<longrightarrow>
      text_to_json E method body = (Json 400 (message ''Invalid model selection''), []))
   \<and> (method = ''POST'' \<and> logged_in E \<and> js_prop body ''text'' = Some (JStr t) \<and> t \<noteq> []
        \<and> (\<not> truthy_opt (js_prop body ''model'') \<or> \<not> typeof_string (js_prop body ''model'')) \<longrightarrow>
      text_to_json E method body = (Json 400 (message ''Model selection is required''), []))
   \<and> set validModels = {''openai/gpt-oss-20b'', ''openai/gpt-oss-120b''}"
proof (intro conjI impI allI)
  assume a: "js_prop body ''model'' \<notin> (\<lambda>m. Some (JStr m)) ` set validModels"
  show "snd (text_to_json E method body) = []"
    using a by (rule text_to_json_bad_model)
  show "fst (text_to_json E method body) \<noteq> Json 200 v" for v
    using a by (rule text_to_json_bad_model)
next
  assume a: "method = ''POST'' \<and> logged_in E \<and> js_prop body ''text'' = Some (JStr t) \<and> t \<noteq> []
        \<and> js_prop body ''model'' = Some (JStr m) \<and> m \<noteq> [] \<and> m \<notin> set validModels"
  then have "body \<noteq> JNull" by (auto simp: js_prop_def)
  then have "get_prop body ''text'' = Inr (js_prop body ''text'')" by (rule get_prop_nonnull)
  with a show "text_to_json E method body = (Json 400 (message ''Invalid model selection''), [])"
    by (simp add: text_to_json_def Let_def)
next
  assume a: "method = ''POST'' \<and> logged_in E \<and> js_prop body ''text'' = Some (JStr t) \<and> t \<noteq> []
        \<and> (\<not> truthy_opt (js_prop body ''model'') \<or> \<not> typeof_string (js_prop body ''model''))"
  then have "body \<noteq> JNull" by (auto simp: js_prop_def)
  then have "get_prop body ''text'' = Inr (js_prop body ''text'')" by (rule get_prop_nonnull)
  with a show "text_to_json E method body = (Json 400 (message ''Model selection is required''), [])"
    by (auto simp add: text_to_json_def Let_def)
next
  show "set validModels = {''openai/gpt-oss-20b'', ''openai/gpt-oss-120b''}"
    by (simp add: validModels_def)
qed

theorem text_to_json_model_allow_list_witness:
  "text_to_json (demo_env ''gsk_abc'') ''POST''
      (JObj [(''text'', JStr ''hello''), (''model'', JStr ''gpt-made-up'')])
     = (Json 400 (message ''Invalid model selection''), [])
   \<and> text_to_json (demo_env ''gsk_abc'') ''POST'' (JObj [(''text'', JStr ''hello'')])
     = (Json 400 (message ''Model selection is required''), [])
   \<and> snd (text_to_json (demo_env ''gsk_abc'') ''GET''
             (JObj [(''text'', JStr ''hello''), (''model'', JStr ''gpt-made-up'')])) = []"
proof -
  let ?b1 = "JObj [(''text'', JStr ''hello''), (''model'', JStr ''gpt-made-up'')]"
  let ?b2 = "JObj [(''text'', JStr ''hello'')]"
  have h1: "''POST'' = ''POST'' \<and> logged_in (demo_env ''gsk_abc'')
            \<and> js_prop ?b1 ''text'' = Some (JStr ''hello'') \<and> ''hello'' \<noteq> []
            \<and> js_prop ?b1 ''model'' = Some (JStr ''gpt-made-up'') \<and> ''gpt-made-up'' \<noteq> []
            \<and> ''gpt-made-up'' \<notin> set validModels"
    by (simp add: demo_logged_in js_prop_def validModels_def)
  have h2: "''POST'' = ''POST'' \<and> logged_in (demo_env ''gsk_abc'')
            \<and> js_prop ?b2 ''text'' = Some (JStr ''hello'') \<and> ''hello'' \<noteq> []
            \<and> (\<not> truthy_opt (js_prop ?b2 ''model'') \<or> \<not> typeof_string (js_prop ?b2 ''model''))"
    by (simp add: demo_logged_in js_prop_def)
  have h3: "js_prop ?b1 ''model'' \<notin> (\<lambda>m. Some (JStr m)) ` set validModels"
    by (simp add: js_prop_def validModels_def)
  from text_to_json_model_allow_list [of ?b1 "demo_env ''gsk_abc''" "''POST''" "''hello''" "''gpt-made-up''"] h1
  have r1: "text_to_json (demo_env ''gsk_abc'') ''POST'' ?b1
              = (Json 400 (message ''Invalid model selection''), [])"
    by blast
  from text_to_json_model_allow_list [of ?b2 "demo_env ''gsk_abc''" "''POST''" "''hello''"] h2
  have r2: "text_to_json (demo_env ''gsk_abc'') ''POST'' ?b2
              = (Json 400 (message ''Model selection is required''), [])"
    by blast
  from text_to_json_model_allow_list [of ?b1 "demo_env ''gsk_abc''" "''GET''"] h3
  have r3: "snd (text_to_json (demo_env ''gsk_abc'') ''GET'' ?b1) = []"
    by blast
  from r1 r2 r3 show ?thesis by simp
qed

subsection \<open>The credential's prefix\<close>

text \<open>
  The design-library and HTML-generation handlers test the decrypted credential for the
  prefix \<^verbatim>\<open>gsk_\<close> before they call the model: with any other credential they send
  nothing.
\<close>

lemma design_guards_key:
  "design_guards E r = Inr (apiKey, sp) \<Longrightarrow>
     resolved_credential E = Some apiKey \<and> starts_with apiKey ''gsk_''
     \<and> 100 \<le> length (imageBase64 r)"
  by (auto simp: design_guards_def resolved_credential_def
           split: if_splits sum.splits option.splits)

lemma bad_key_design_guards:
  assumes "resolved_credential E = Some k" and "\<not> starts_with k ''gsk_''"
  shows "\<exists>answer. design_guards E r = Inl answer"
proof (cases "design_guards E r")
  case (Inl a)
  then show ?thesis by simp
next
  case (Inr p)
  obtain apiKey sp where "p = (apiKey, sp)" by (cases p)
  with Inr design_guards_key [of E r apiKey sp] assms show ?thesis by simp
qed

lemma bad_key_design_library_post:
  assumes "resolved_credential E = Some k" and "\<not> starts_with k ''gsk_''"
  shows "snd (design_library_post E r) = []" and "snd (design_library_post_v1 E r) = []"
proof -
  from bad_key_design_guards [OF assms] obtain a where "design_guards E r = Inl a" ..
  then show "snd (design_library_post E r) = []" and "snd (design_library_post_v1 E r) = []"
    by (simp_all add: design_library_post_def design_library_post_v1_def)
qed

lemma bad_key_generate_html:
  assumes "resolved_credential E = Some k" and "\<not> starts_with k ''gsk_''"
  shows "snd (generate_html E method body) = []"
  using assms
  by (cases "get_prop body ''jsonData''")
     (auto simp: generate_html_def resolved_credential_def Let_def
           split: sum.splits option.splits)

text \<open>
  C3. The claim fails for text-to-deck generation: its handler has no test of the
  prefix. With the stored credential \<^verbatim>\<open>sk-abc\<close> it sends one request to the remote
  endpoint, carrying that credential, where the design-library and HTML-generation
  handlers answer 400 \<^verbatim>\<open>Invalid Groq API key format\<close> and send none.
\<close>

theorem text_to_json_sends_any_key:
  "\<not> starts_with ''sk-abc'' ''gsk_''
   \<and> snd (text_to_json (demo_env ''sk-abc'') ''POST''
            (JObj [(''text'', JStr ''hello''), (''model'', JStr ''openai/gpt-oss-20b'')]))
       = [DeckCall ''sk-abc'' ''openai/gpt-oss-20b'' (js_replace default_prompt ''{text}'' ''hello'')]
   \<and> design_library_post (demo_env ''sk-abc'') (demo_design_request 200)
       = (Json 400 (message ''Invalid Groq API key format''), [])
   \<and> generate_html (demo_env ''sk-abc'') ''POST''
        (JObj [(''jsonData'', q1_completion), (''designLibraryId'', JStr ''d1'')])
       = (Json 400 (message ''Invalid Groq API key format''), [])"
proof (intro conjI)
  show "\<not> starts_with ''sk-abc'' ''gsk_''" by simp
  show "snd (text_to_json (demo_env ''sk-abc'') ''POST''
            (JObj [(''text'', JStr ''hello''), (''model'', JStr ''openai/gpt-oss-20b'')]))
       = [DeckCall ''sk-abc'' ''openai/gpt-oss-20b'' (js_replace default_prompt ''{text}'' ''hello'')]"
    by (simp add: text_to_json_def demo_logged_in demo_holder demo_fields demo_key js_prop_def
          validModels_def callGroqAPI_def build_prompt_def Let_def split: sum.splits prod.splits)
  show "design_library_post (demo_env ''sk-abc'') (demo_design_request 200)
       = (Json 400 (message ''Invalid Groq API key format''), [])"
    by (simp add: design_library_post_def design_guards_def demo_logged_in demo_holder
          demo_fields demo_key demo_design_request_def)
  show "generate_html (demo_env ''sk-abc'') ''POST''
        (JObj [(''jsonData'', q1_completion), (''designLibraryId'', JStr ''d1'')])
       = (Json 400 (message ''Invalid Groq API key format''), [])"
    by (simp add: generate_html_def demo_logged_in demo_holder demo_fields demo_key js_prop_def
          q1_completion_def Let_def)
qed

theorem text_to_json_sends_any_key_witness:
  "length (snd (text_to_json (demo_env ''sk-abc'') ''POST''
            (JObj [(''text'', JStr ''hello''), (''model'', JStr ''openai/gpt-oss-20b'')]))) = 1
   \<and> snd (design_library_post (demo_env ''sk-abc'') (demo_design_request 200)) = []
   \<and> snd (generate_html (demo_env ''sk-abc'') ''POST''
            (JObj [(''jsonData'', q1_completion), (''designLibraryId'', JStr ''d1'')])) = []"
  using text_to_json_sends_any_key by simp

subsection \<open>Design library: the size of the image\<close>

lemma image_too_large_iff: "image_too_large img \<longleftrightarrow> 5592405 < length img"
proof -
  let ?n = "length img"
  have "image_too_large img \<longleftrightarrow> (4 :: rat) * (1024 * 1024) < of_int \<lceil>(of_nat ?n * 3 / 4 :: rat)\<rceil>"
    by (simp add: image_too_large_def imageSizeInMB_def imageSizeInBytes_def pos_less_divide_eq)
  also have "\<dots> \<longleftrightarrow> (4194304 :: int) < \<lceil>(of_nat ?n * 3 / 4 :: rat)\<rceil>"
  proof -
    have "(4 :: rat) * (1024 * 1024) = of_int 4194304" by simp
    then show ?thesis by (simp only: of_int_less_iff)
  qed
  also have "\<dots> \<longleftrightarrow> (of_int 4194304 :: rat) < of_nat ?n * 3 / 4"
    by (rule less_ceiling_iff)
  also have "\<dots> \<longleftrightarrow> (16777216 :: rat) < of_nat (?n * 3)"
    by (simp add: pos_less_divide_eq)
  also have "\<dots> \<longleftrightarrow> 16777216 < ?n * 3"
  proof -
    have "(16777216 :: rat) = of_nat 16777216" by simp
    then show ?thesis by (simp only: of_nat_less_iff)
  qed
  also have "\<dots> \<longleftrightarrow> 5592405 < ?n" by arith
  finally show ?thesis .
qed

lemma design_post_too_large:
  assumes "image_too_large (imageBase64 r)"
  shows "snd (design_library_post E r) = []" and "snd (design_library_post_v1 E r) = []"
  using assms
  by (cases "design_guards E r"; simp add: design_library_post_def design_library_post_v1_def
        split: prod.splits)+

lemma design_post_rejects_large:
  assumes "design_guards E r = Inr (apiKey, sp)" and "image_too_large (imageBase64 r)"
  shows "design_library_post E r = (Json 400 (message ''Image too large. Maximum size is 4MB''), [])"
    and "design_library_post_v1 E r = (Json 400 (message ''Image too large. Maximum size is 4MB''), [])"
  using assms by (simp_all add: design_library_post_def design_library_post_v1_def)

lemma design_post_calls_model:
  assumes "design_guards E r = Inr (apiKey, sp)" and "\<not> image_too_large (imageBase64 r)"
  shows "snd (design_library_post E r) = [VisionCall apiKey (imageBase64 r) (prompt sp)]"
    and "snd (design_library_post_v1 E r) = [VisionCall apiKey (imageBase64 r) (prompt sp)]"
proof -
  show "snd (design_library_post E r) = [VisionCall apiKey (imageBase64 r) (prompt sp)]"
    using assms
    by (auto simp: design_library_post_def callGroqVisionAPI_def Let_def
             split: sum.splits prod.splits)
  show "snd (design_library_post_v1 E r) = [VisionCall apiKey (imageBase64 r) (prompt sp)]"
    using assms
    by (auto simp: design_library_post_v1_def Let_def split: sum.splits prod.splits)
qed

text \<open>
  C7 (as amended). The size check of the design-library POST branch comes before the
  model call and bounds the estimated decoded size, \<^verbatim>\<open>ceil(3 * length / 4)\<close> bytes, by 4 MiB:
  it rejects exactly the payloads of more than 5592405 base64 characters. A request
  with a longer payload sends no request to the remote endpoint, in either version of
  the handler, and when it has passed the earlier checks it is answered 400
  \<^verbatim>\<open>Image too large. Maximum size is 4MB\<close>. A request that has passed the earlier checks
  with a payload of at most 5592405 characters passes the size check, and the model is
  called. In particular every payload of at most 4 MiB of base64 text passes.
\<close>

theorem design_library_size_check:
  "(image_too_large (imageBase64 r) \<longleftrightarrow> 5592405 < length (imageBase64 r))
   \<and> (image_too_large (imageBase64 r) \<longrightarrow>
        snd (design_library_post E r) = [] \<and> snd (design_library_post_v1 E r) = [])
   \<and> (design_guards E r = Inr (apiKey, sp) \<and> image_too_large (imageBase64 r) \<longrightarrow>
        design_library_post E r = (Json 400 (message ''Image too large. Maximum size is 4MB''), [])
        \<and> design_library_post_v1 E r
            = (Json 400 (message ''Image too large. Maximum size is 4MB''), []))
   \<and> (design_guards E r = Inr (apiKey, sp) \<and> \<not> image_too_large (imageBase64 r) \<longrightarrow>
        snd (design_library_post E r) = [VisionCall apiKey (imageBase64 r) (prompt sp)]
        \<and> snd (design_library_post_v1 E r) = [VisionCall apiKey (imageBase64 r) (prompt sp)])
   \<and> (length (imageBase64 r) \<le> 4 * 1024 * 1024 \<longrightarrow> \<not> image_too_large (imageBase64 r))"
  using image_too_large_iff [of "imageBase64 r"]
    design_post_too_large [of r E]
    design_post_rejects_large [of E r apiKey sp]
    design_post_calls_model [of E r apiKey sp]
  by auto

theorem design_library_size_check_witness:
  "design_library_post (demo_env ''gsk_abc'') (demo_design_request 6000000)
     = (Json 400 (message ''Image too large. Maximum size is 4MB''), [])
   \<and> design_library_post_v1 (demo_env ''gsk_abc'') (demo_design_request 6000000)
     = (Json 400 (message ''Image too large. Maximum size is 4MB''), [])
   \<and> snd (design_library_post (demo_env ''gsk_abc'') (demo_design_request 5592405))
     = [VisionCall ''gsk_abc'' (replicate 5592405 CHR ''A'') ''List the design tokens.'']
   \<and> image_too_large (replicate 5592406 CHR ''A'')
   \<and> \<not> image_too_large (replicate (4 * 1024 * 1024) CHR ''A'')"
proof -
  let ?E = "demo_env ''gsk_abc''"
  let ?sp = "\<lparr> prompt = ''List the design tokens.'', isActive = True \<rparr>"
  have g1: "design_guards ?E (demo_design_request 6000000) = Inr (''gsk_abc'', ?sp)"
    by (rule demo_design_guards) simp
  have g2: "design_guards ?E (demo_design_request 5592405) = Inr (''gsk_abc'', ?sp)"
    by (rule demo_design_guards) simp
  note t1 = design_library_size_check [of "demo_design_request 6000000" ?E "''gsk_abc''" ?sp]
  note t2 = design_library_size_check [of "demo_design_request 5592405" ?E "''gsk_abc''" ?sp]
  note t3 = design_library_size_check [of "demo_design_request 5592406" ?E "''gsk_abc''" ?sp]
  note t4 = design_library_size_check [of "demo_design_request (4 * 1024 * 1024)" ?E "''gsk_abc''" ?sp]
  from t1 g1 have r1: "design_library_post ?E (demo_design_request 6000000)
       = (Json 400 (message ''Image too large. Maximum size is 4MB''), [])
     \<and> design_library_post_v1 ?E (demo_design_request 6000000)
       = (Json 400 (message ''Image too large. Maximum size is 4MB''), [])"
    by (simp add: demo_image)
  from t2 g2 have r2: "snd (design_library_post ?E (demo_design_request 5592405))
       = [VisionCall ''gsk_abc'' (replicate 5592405 CHR ''A'') ''List the design tokens.'']"
    by (simp add: demo_image)
  from t3 have r3: "image_too_large (replicate 5592406 CHR ''A'')"
    by (simp add: demo_image)
  from t4 have r4: "\<not> image_too_large (replicate (4 * 1024 * 1024) CHR ''A'')"
    by (simp add: demo_image)
  from r1 r2 r3 r4 show ?thesis by simp
qed

text \<open>
  The claim as stated fails for a payload between 4 MiB and 5592405 characters: five
  million characters of base64 text exceed 4 MiB, and the request is not rejected for
  its size; the model is called.
\<close>

theorem design_library_accepts_five_million:
  "4 * 1024 * 1024 < length (imageBase64 (demo_design_request 5000000))
   \<and> snd (design_library_post (demo_env ''gsk_abc'') (demo_design_request 5000000))
       = [VisionCall ''gsk_abc'' (replicate 5000000 CHR ''A'') ''List the design tokens.'']
   \<and> fst (design_library_post (demo_env ''gsk_abc'') (demo_design_request 5000000))
        \<noteq> Json 400 (message ''Image too large. Maximum size is 4MB'')"
proof -
  let ?E = "demo_env ''gsk_abc''"
  let ?r = "demo_design_request 5000000"
  have g: "design_guards ?E ?r = Inr (''gsk_abc'', \<lparr> prompt = ''List the design tokens.'', isActive = True \<rparr>)"
    by (rule demo_design_guards) simp
  have small: "\<not> image_too_large (imageBase64 ?r)"
    by (simp add: image_too_large_iff demo_image)
  have calls: "snd (design_library_post ?E ?r)
       = [VisionCall ''gsk_abc'' (replicate 5000000 CHR ''A'') ''List the design tokens.'']"
    using design_post_calls_model(1) [OF g small] by (simp add: demo_image)
  have "fst (design_library_post ?E ?r) \<noteq> Json 400 (message ''Image too large. Maximum size is 4MB'')"
    using g small
    by (simp add: design_library_post_def callGroqVisionAPI_def demo_fields read_content_def
          demo_reply_def first_content_def js_prop_def normalize_tokens_def tokens_try_def
          q1_completion_def js_or_def message_def Let_def)
  with calls show ?thesis by (simp add: demo_image)
qed

subsection \<open>Credential settings\<close>

text \<open>
  The GET branch answers with the presence flag only: two surroundings with the same
  session whose stored credentials are both present or both absent get the same
  response, whatever the credentials are. And a document saved with \<^verbatim>\<open>save()\<close> has its
  credential encrypted by the hook.
\<close>

lemma settings_get_flag_only:
  assumes "session_user E1 = session_user E2"
    and "(stored_key_holder E1 = None) = (stored_key_holder E2 = None)"
  shows "settings_get E1 = settings_get E2"
  using assms by (simp add: settings_get_def logged_in_def)

lemma save_user_encrypts:
  "k \<noteq> [] \<Longrightarrow>
   save_user L iv True uid \<lparr> email = e, groqApiKey = Some k \<rparr> db uid
     = Some \<lparr> email = e, groqApiKey = Some (encrypt L iv k) \<rparr>"
  by (simp add: save_user_def pre_save_api_key_def)

text \<open>
  C9. The claim fails on the one path that stores a credential: the PUT branch writes
  with \<^verbatim>\<open>User.findByIdAndUpdate\<close>, which does not run the \<^verbatim>\<open>pre('save')\<close> hook, so the
  credential \<^verbatim>\<open>gsk_live_123\<close> is in the stored document as it was submitted, not
  encrypted.
\<close>

theorem settings_put_stores_plaintext:
  "fst (settings_put (demo_env ''gsk_old'') (JObj [(''groqApiKey'', JStr ''gsk_live_123'')]))
     = Json 200 (JObj [(''message'', JStr ''API key updated successfully''),
                       (''hasApiKey'', JBool True)])
   \<and> snd (snd (settings_put (demo_env ''gsk_old'') (JObj [(''groqApiKey'', JStr ''gsk_live_123'')])))
        ''u1''
     = Some \<lparr> email = ''ann@example.org'', groqApiKey = Some ''gsk_live_123'' \<rparr>"
  by (simp add: settings_put_def demo_logged_in demo_fields testGroqApiKey_def demo_reply_def
        Let_def) (simp add: demo_env_def)

theorem settings_put_stores_plaintext_witness:
  "snd (snd (settings_put (demo_env ''gsk_old'') (JObj [(''groqApiKey'', JStr ''gsk_live_123'')])))
        ''u1''
     \<noteq> Some \<lparr> email = ''ann@example.org'',
               groqApiKey = Some (encrypt demo_crypto demo_iv ''gsk_live_123'') \<rparr>"
  using settings_put_stores_plaintext
  by (simp add: encrypt_def to_hex_def demo_iv_def hex_of_byte_def hex_digit_def)

section \<open>Properties of view tracking\<close>



end
